theory Spec2Isabelle
  imports Main
begin

section \<open>JavaScript values and built-ins used by the server\<close>

text \<open>
  The server is a single JavaScript module. Its three entry points
  (\<open>uploadImageUrl\<close>, \<open>uploadFile\<close>, \<open>readBaserowStructure\<close>) and the helper
  \<open>getFieldId\<close> are embedded below as state-passing functions with errors as values.
  This first section models the pieces of the language the code relies on.

  Strings are lists of code units; a \<open>char\<close> stands for a code unit below 256.
  JSON documents handed through unchanged (the uploaded-file descriptor, a patched row,
  sample rows) are values of \<open>json\<close>. A JavaScript Number is a value of \<open>jsnum\<close>:
  \<open>NaN\<close>, one of the two infinities, or \<open>Num n\<close>, the Number whose value is the integer
  \<open>n\<close>. Ids, status codes and counts are integers; Numbers with a fractional part do
  not occur among them and are not represented. Not every integer is a Number:
  \<open>toNumber\<close> below gives the Number nearest to an integer, which is the integer itself
  up to \<open>2\<^sup>5\<^sup>3\<close> in magnitude, and \<open>numberToString\<close> prints a Number the way a
  template literal does. The integers in the records of the backend are the values of
  the Numbers that \<open>response.json()\<close> delivered. Table ids and row ids are strings,
  as the tool schemas and the documentation comments of the functions declare; so is
  the field reference that the upload functions take.
\<close>

datatype json =
    JNull
  | JBool bool
  | JNum int
  | JStr string
  | JArr "json list"
  | JObj "(string \<times> json) list"

datatype jsnum = NaN | Num int | PosInfinity | NegInfinity

datatype error = Error string

fun message :: "error \<Rightarrow> string" where
  "message (Error m) = m"

definition dquote :: char where
  "dquote = CHR 0x22"

subsection \<open>Truthiness\<close>

fun truthy :: "json \<Rightarrow> bool" where
  "truthy JNull = False"
| "truthy (JBool b) = b"
| "truthy (JNum n) = (n \<noteq> 0)"
| "truthy (JStr s) = (s \<noteq> [])"
| "truthy (JArr xs) = True"
| "truthy (JObj kvs) = True"

text \<open>\<open>v || d\<close> on a property that may be absent (\<open>None\<close> is \<open>undefined\<close>).\<close>

fun orElse :: "json option \<Rightarrow> json \<Rightarrow> json" where
  "orElse None d = d"
| "orElse (Some v) d = (if truthy v then v else d)"

text \<open>A value tested by \<open>!fieldId\<close>: \<open>null\<close>, \<open>NaN\<close> and \<open>0\<close> are falsy.\<close>

fun truthyId :: "jsnum option \<Rightarrow> bool" where
  "truthyId None = False"
| "truthyId (Some NaN) = False"
| "truthyId (Some (Num n)) = (n \<noteq> 0)"
| "truthyId (Some PosInfinity) = True"
| "truthyId (Some NegInfinity) = True"

subsection \<open>Numbers\<close>

text \<open>
  The decimal numeral of an integer, by repeated division.
\<close>

definition digitChar :: "nat \<Rightarrow> char" where
  "digitChar d = char_of (48 + d)"

function showDigits :: "int \<Rightarrow> string" where
  "showDigits n = (if n < 10 then [digitChar (nat n)] else showDigits (n div 10) @ [digitChar (nat (n mod 10))])"
  by pat_completeness auto
termination
  by (relation "measure nat") auto

declare showDigits.simps [simp del]

definition showInt :: "int \<Rightarrow> string" where
  "showInt i = (if i < 0 then CHR ''-'' # showDigits (- i) else showDigits i)"

text \<open>
  The Number for a mathematical integer, as \<open>parseInt\<close> and \<open>JSON.parse\<close> produce it:
  the double nearest to it, ties to the even significand. \<open>toDouble\<close> rounds a
  non-negative integer to 53 significant bits and is \<open>None\<close> when the result is beyond
  the largest double (the Number is then an infinity).
\<close>

function bitLength :: "int \<Rightarrow> nat" where
  "bitLength n = (if n \<le> 0 then 0 else Suc (bitLength (n div 2)))"
  by pat_completeness auto
termination
  by (relation "measure nat") auto

declare bitLength.simps [simp del]

definition toDouble :: "int \<Rightarrow> int option" where
  "toDouble n =
     (if n < 9007199254740992 then Some n
      else
        (let e = bitLength n - 53;
             q = n div 2 ^ e;
             r = n mod 2 ^ e;
             h = 2 ^ (e - 1);
             q' = (if h < r \<or> (r = h \<and> odd q) then q + 1 else q);
             v = q' * 2 ^ e
         in if 2 ^ 1024 \<le> v then None else Some v))"

definition toNumber :: "int \<Rightarrow> jsnum" where
  "toNumber i =
     (if i < 0 then (case toDouble (- i) of None \<Rightarrow> NegInfinity | Some v \<Rightarrow> Num (- v))
      else (case toDouble i of None \<Rightarrow> PosInfinity | Some v \<Rightarrow> Num v))"

subsection \<open>Number to string: template literals and \<open>String(x)\<close>\<close>

text \<open>
  \<open>Number::toString\<close> in radix 10 prints the shortest decimal that converts back to
  the Number: with \<open>k\<close> digits \<open>s\<close> and \<open>n\<close> the number of digits of the integer part,
  \<open>k\<close> is as small as possible such that \<open>s \<times> 10\<^sup>n\<^sup>-\<^sup>k\<close> rounds to the Number, and among
  several such \<open>s\<close> the one nearest to the Number is taken, the even one in a tie. For
  an integer-valued Number the decimal is an integer: \<open>pick x g\<close> is the multiple of
  \<open>g\<close> next to \<open>x\<close> that rounds to \<open>x\<close>, if there is one, and \<open>shortestDecimal\<close> tries
  the powers of ten from the largest down. The decimal is printed in full when \<open>n\<close> is
  at most 21, that is below \<open>10\<^sup>2\<^sup>1\<close>, and in exponent notation (\<open>1e+21\<close>,
  \<open>1.1805916207174113e+21\<close>) from there on.
\<close>

definition pick :: "int \<Rightarrow> int \<Rightarrow> int option" where
  "pick x g =
     (let lo = (x div g) * g;
          hi = lo + g;
          okLo = (toDouble lo = Some x);
          okHi = (toDouble hi = Some x)
      in if okLo \<and> okHi then
           (if x - lo < hi - x then Some lo
            else if hi - x < x - lo then Some hi
            else if even (x div g) then Some lo else Some hi)
         else if okLo then Some lo
         else if okHi then Some hi
         else None)"

primrec shortestFrom :: "int \<Rightarrow> nat \<Rightarrow> int" where
  "shortestFrom x 0 = (case pick x 1 of None \<Rightarrow> x | Some v \<Rightarrow> v)"
| "shortestFrom x (Suc j) = (case pick x (10 ^ Suc j) of None \<Rightarrow> shortestFrom x j | Some v \<Rightarrow> v)"

definition shortestDecimal :: "int \<Rightarrow> int" where
  "shortestDecimal x = shortestFrom x (length (showDigits x) - 1)"

definition exponentForm :: "int \<Rightarrow> string" where
  "exponentForm v =
     (let digits = showDigits v;
          significant = rev (dropWhile (\<lambda>c. c = CHR ''0'') (rev digits));
          e = showDigits (int (length digits) - 1)
      in case significant of
           [] \<Rightarrow> []
         | d # ds \<Rightarrow> (if ds = [] then [d] else d # CHR ''.'' # ds) @ ''e+'' @ e)"

definition showMagnitude :: "int \<Rightarrow> string" where
  "showMagnitude x =
     (if x = 0 then ''0''
      else (let v = shortestDecimal x in
            if v < 1000000000000000000000 then showDigits v else exponentForm v))"

fun numberToString :: "jsnum \<Rightarrow> string" where
  "numberToString NaN = ''NaN''"
| "numberToString PosInfinity = ''Infinity''"
| "numberToString NegInfinity = ''-Infinity''"
| "numberToString (Num i) = (if i < 0 then CHR ''-'' # showMagnitude (- i) else showMagnitude i)"

text \<open>
  \<open>`${x}`\<close> for a property \<open>x\<close> of a parsed response, a counter or a parameter whose
  value is the integer \<open>i\<close>.
\<close>

definition interpolate :: "int \<Rightarrow> string" where
  "interpolate i = numberToString (toNumber i)"

subsection \<open>String to Number: \<open>isNaN\<close> on a string\<close>

text \<open>
  \<open>isNaN(s)\<close> converts the string with the language's StringToNumber and is false
  exactly when \<open>s\<close>, with white space stripped at both ends, is empty or matches the
  grammar \<open>StrNumericLiteral\<close>: an optionally signed decimal literal (with optional
  fraction and exponent, or \<open>Infinity\<close>), or an unsigned binary, octal or hexadecimal
  integer literal.
\<close>

definition isWhiteSpace :: "char \<Rightarrow> bool" where
  "isWhiteSpace c = (c \<in> set [CHR 0x09, CHR 0x0A, CHR 0x0B, CHR 0x0C, CHR 0x0D, CHR 0x20, CHR 0xA0])"

definition trimStart :: "string \<Rightarrow> string" where
  "trimStart s = dropWhile isWhiteSpace s"

definition trim :: "string \<Rightarrow> string" where
  "trim s = rev (dropWhile isWhiteSpace (rev (dropWhile isWhiteSpace s)))"

definition radixDigitValue :: "char \<Rightarrow> nat option" where
  "radixDigitValue c =
     (let n = (of_char c :: nat) in
      if 48 \<le> n \<and> n \<le> 57 then Some (n - 48)
      else if 97 \<le> n \<and> n \<le> 122 then Some (n - 87)
      else if 65 \<le> n \<and> n \<le> 90 then Some (n - 55)
      else None)"

definition isRadixDigit :: "nat \<Rightarrow> char \<Rightarrow> bool" where
  "isRadixDigit R c = (case radixDigitValue c of None \<Rightarrow> False | Some v \<Rightarrow> v < R)"

definition isDecimalDigit :: "char \<Rightarrow> bool" where
  "isDecimalDigit c = isRadixDigit 10 c"

definition decimalDigits :: "string \<Rightarrow> bool" where
  "decimalDigits s = (s \<noteq> [] \<and> list_all isDecimalDigit s)"

definition dropSign :: "string \<Rightarrow> string" where
  "dropSign s = (case s of [] \<Rightarrow> [] | c # r \<Rightarrow> if c = CHR ''+'' \<or> c = CHR ''-'' then r else s)"

definition signedInteger :: "string \<Rightarrow> bool" where
  "signedInteger s = decimalDigits (dropSign s)"

definition exponentPartOpt :: "string \<Rightarrow> bool" where
  "exponentPartOpt s =
     (case s of [] \<Rightarrow> True | c # r \<Rightarrow> (c = CHR ''e'' \<or> c = CHR ''E'') \<and> signedInteger r)"

definition strUnsignedDecimalLiteral :: "string \<Rightarrow> bool" where
  "strUnsignedDecimalLiteral s =
     (s = ''Infinity'' \<or>
      (let ip = takeWhile isDecimalDigit s; rest = dropWhile isDecimalDigit s in
       case rest of
         [] \<Rightarrow> ip \<noteq> []
       | c # r \<Rightarrow>
           if c = CHR ''.'' then
             (let fp = takeWhile isDecimalDigit r; rest' = dropWhile isDecimalDigit r in
              (ip \<noteq> [] \<or> fp \<noteq> []) \<and> exponentPartOpt rest')
           else ip \<noteq> [] \<and> exponentPartOpt rest))"

definition strDecimalLiteral :: "string \<Rightarrow> bool" where
  "strDecimalLiteral s = strUnsignedDecimalLiteral (dropSign s)"

definition radixLiteral :: "char \<Rightarrow> char \<Rightarrow> nat \<Rightarrow> string \<Rightarrow> bool" where
  "radixLiteral lo up R s =
     (case s of
        z # p # ds \<Rightarrow> z = CHR ''0'' \<and> (p = lo \<or> p = up) \<and> ds \<noteq> [] \<and> list_all (isRadixDigit R) ds
      | _ \<Rightarrow> False)"

definition nonDecimalIntegerLiteral :: "string \<Rightarrow> bool" where
  "nonDecimalIntegerLiteral s =
     (radixLiteral (CHR ''b'') (CHR ''B'') 2 s \<or>
      radixLiteral (CHR ''o'') (CHR ''O'') 8 s \<or>
      radixLiteral (CHR ''x'') (CHR ''X'') 16 s)"

definition strNumericLiteral :: "string \<Rightarrow> bool" where
  "strNumericLiteral s = (strDecimalLiteral s \<or> nonDecimalIntegerLiteral s)"

definition isNaN :: "string \<Rightarrow> bool" where
  "isNaN s = (let t = trim s in \<not> (t = [] \<or> strNumericLiteral t))"

subsection \<open>\<open>parseInt\<close> with no radix argument\<close>

text \<open>
  \<open>parseInt(s)\<close> skips leading white space, reads an optional sign, switches to radix 16
  after a \<open>0x\<close> or \<open>0X\<close> prefix, and converts the longest prefix of digits of the radix;
  what follows is ignored, and no digit at all gives \<open>NaN\<close>. The result is the Number
  for the mathematical integer the digits denote (\<open>radixValue\<close>), so it is rounded
  once the digits denote more than \<open>2\<^sup>5\<^sup>3\<close>: to the nearest double, as the engine
  that runs the server does for any number of digits.
\<close>

definition radixValue :: "nat \<Rightarrow> string \<Rightarrow> int" where
  "radixValue R ds =
     foldl (\<lambda>acc c. acc * int R + int (case radixDigitValue c of None \<Rightarrow> 0 | Some v \<Rightarrow> v)) 0 ds"

definition parseInt :: "string \<Rightarrow> jsnum" where
  "parseInt s =
     (let S = trimStart s;
          sign = (case S of [] \<Rightarrow> 1 | c # r \<Rightarrow> if c = CHR ''-'' then - 1 else (1::int));
          S1 = dropSign S;
          hex = (take 2 S1 = ''0x'' \<or> take 2 S1 = ''0X'');
          R = (if hex then 16 else 10);
          S2 = (if hex then drop 2 S1 else S1);
          Z = takeWhile (isRadixDigit R) S2
      in if Z = [] then NaN else toNumber (sign * radixValue R Z))"

subsection \<open>Regular expression and string methods\<close>

text \<open>\<open>/^\d+$/.test(s)\<close>: a non-empty string of decimal digits.\<close>

definition allDigits :: "string \<Rightarrow> bool" where
  "allDigits s = decimalDigits s"

definition startsWith :: "string \<Rightarrow> string \<Rightarrow> bool" where
  "startsWith s p = (take (length p) s = p)"

text \<open>\<open>s.replace(pat, rep)\<close> with a string pattern replaces the first occurrence.\<close>

fun replaceFirst :: "string \<Rightarrow> string \<Rightarrow> string \<Rightarrow> string" where
  "replaceFirst pat rep [] = (if pat = [] then rep else [])"
| "replaceFirst pat rep (c # cs) =
     (if startsWith (c # cs) pat then rep @ drop (length pat) (c # cs)
      else c # replaceFirst pat rep cs)"


section \<open>The network, the console and the control flow\<close>

text \<open>
  Every remote call is one \<open>fetch\<close>. A fetch either rejects (a transport failure, with
  the error it rejects with) or resolves to a response carrying \<open>ok\<close>, \<open>status\<close>,
  \<open>statusText\<close>, and two readers of the body: \<open>readText\<close> for \<open>text()\<close> and
  \<open>readJson\<close> for \<open>json()\<close>, each of which may itself reject. The body of a response is typed by the endpoint it comes from, in
  the shapes the backend's REST interface documents.
\<close>

record 'a response =
  ok :: bool
  status :: nat
  statusText :: string
  readText :: "error + string"
  readJson :: "error + 'a"

datatype 'a fetched = Rejected error | Resolved "'a response"

text \<open>The request as the code builds it: \<open>httpMethod\<close> is its \<open>method\<close> option, then URL,
  headers and body.\<close>

datatype body =
    NoBody
  | JsonBody json
  | FormData string string

record request =
  httpMethod :: string
  url :: string
  headers :: "(string \<times> string) list"
  body :: body

text \<open>
  The observable world of one call: the requests issued so far, each with the error of
  the transport if the fetch rejected, and the lines written by \<open>console.warn\<close>.
\<close>

record world =
  requests :: "(request \<times> error option) list"
  warnings :: "string list"

type_synonym ('s, 'a) io = "'s \<Rightarrow> (error + 'a) \<times> 's"

definition ret :: "'a \<Rightarrow> ('s, 'a) io" where
  "ret x = (\<lambda>s. (Inr x, s))"

definition throw :: "error \<Rightarrow> ('s, 'a) io" where
  "throw e = (\<lambda>s. (Inl e, s))"

definition bind :: "('s, 'a) io \<Rightarrow> ('a \<Rightarrow> ('s, 'b) io) \<Rightarrow> ('s, 'b) io" where
  "bind m f = (\<lambda>s. case m s of (Inl e, s') \<Rightarrow> (Inl e, s') | (Inr x, s') \<Rightarrow> f x s')"

text \<open>\<open>try { m } catch (error) { h error }\<close>\<close>

definition catch :: "('s, 'a) io \<Rightarrow> (error \<Rightarrow> ('s, 'a) io) \<Rightarrow> ('s, 'a) io" where
  "catch m h = (\<lambda>s. case m s of (Inl e, s') \<Rightarrow> h e s' | (Inr x, s') \<Rightarrow> (Inr x, s'))"

text \<open>\<open>await\<close> of a promise that may reject: \<open>response.json()\<close>, \<open>response.text()\<close>.\<close>

definition await :: "error + 'a \<Rightarrow> ('s, 'a) io" where
  "await r = (case r of Inl e \<Rightarrow> throw e | Inr x \<Rightarrow> ret x)"

definition fetch :: "request \<Rightarrow> 'a fetched \<Rightarrow> ('z world_scheme, 'a response) io" where
  "fetch req res =
     (\<lambda>s. case res of
        Rejected e \<Rightarrow> (Inl e, s\<lparr>requests := requests s @ [(req, Some e)]\<rparr>)
      | Resolved r \<Rightarrow> (Inr r, s\<lparr>requests := requests s @ [(req, None)]\<rparr>))"

definition warn :: "string \<Rightarrow> ('z world_scheme, unit) io" where
  "warn line = (\<lambda>s. (Inr (), s\<lparr>warnings := warnings s @ [line]\<rparr>))"

text \<open>
  \<open>for (const x of xs) { ... }\<close> where the body updates the array it pushes to:
  the accumulator is that array, and an exception in the body leaves the loop.
\<close>

fun forOf :: "'a list \<Rightarrow> ('a \<Rightarrow> 'b \<Rightarrow> ('s, 'b) io) \<Rightarrow> 'b \<Rightarrow> ('s, 'b) io" where
  "forOf [] f acc = ret acc"
| "forOf (x # xs) f acc = bind (f x acc) (\<lambda>acc'. forOf xs f acc')"

section \<open>Backend data\<close>

text \<open>
  What the endpoints return, reduced to the properties the code reads. Properties the
  code only guards with \<open>||\<close> may be absent (\<open>None\<close>).
\<close>

record workspace =
  ws_id :: int
  ws_name :: string

record workspacesData =
  results :: "workspace list option"

record application =
  app_id :: int
  app_name :: string
  app_type :: string

record table =
  tbl_id :: int
  tbl_name :: string
  tbl_order :: int

record field =
  fld_id :: int
  fld_name :: string
  fld_type :: string
  fld_primary :: "json option"
  fld_order :: int
  fld_description :: "json option"
  fld_file_types :: "json option"
  fld_multiple_files :: "json option"
  fld_select_options :: "json option"
  fld_link_row_table :: "json option"
  fld_link_row_table_id :: "json option"

record rowsData =
  rows_count :: "int option"
  rows_results :: "json list option"

text \<open>
  The backend: what each endpoint answers. The walker addresses workspaces,
  applications and tables by their integer id; the field list is addressed by the table
  id as it is spliced into the URL, since \<open>getFieldId\<close> receives it as a string.
\<close>

record backend =
  listWorkspaces :: "workspacesData fetched"
  listApplications :: "int \<Rightarrow> application list fetched"
  listTables :: "int \<Rightarrow> table list fetched"
  listFields :: "string \<Rightarrow> field list fetched"
  listRows :: "int \<Rightarrow> int \<Rightarrow> rowsData fetched"
  uploadViaUrl :: "json \<Rightarrow> json fetched"
  uploadFileData :: "string \<Rightarrow> string \<Rightarrow> json fetched"
  patchRow :: "string \<Rightarrow> string \<Rightarrow> json \<Rightarrow> json fetched"

record env =
  BASEROW_API_URL :: "string option"
  BASEROW_API_TOKEN :: "string option"

definition getRequest :: "string \<Rightarrow> string \<Rightarrow> request" where
  "getRequest target apiToken =
     \<lparr>httpMethod = ''GET'', url = target,
      headers = [(''Authorization'', ''Token '' @ apiToken), (''Content-Type'', ''application/json'')],
      body = NoBody\<rparr>"

section \<open>Field resolution: \<open>getFieldId\<close>\<close>

text \<open>
  The reference \<open>getFieldId\<close> receives. The upload functions pass on the \<open>fieldName\<close>
  string of their caller; the function itself also accepts a Number, on which
  \<open>isNaN\<close> tests the Number itself, while the regular expression and \<open>parseInt\<close>
  first convert it to a string. A Number has no \<open>startsWith\<close> method: the call throws
  a \<open>TypeError\<close> inside the \<open>try\<close> block.
\<close>

datatype fieldRef = Str string | Number jsnum

fun refIsNaN :: "fieldRef \<Rightarrow> bool" where
  "refIsNaN (Str s) = isNaN s"
| "refIsNaN (Number x) = (x = NaN)"

fun refToString :: "fieldRef \<Rightarrow> string" where
  "refToString (Str s) = s"
| "refToString (Number x) = numberToString x"

definition getFieldId :: "backend \<Rightarrow> string \<Rightarrow> fieldRef \<Rightarrow> string \<Rightarrow> string \<Rightarrow> ('z world_scheme, jsnum option) io" where
  "getFieldId be tableId fieldNameOrId apiUrl apiToken =
     catch
       (if \<not> refIsNaN fieldNameOrId \<or> allDigits (refToString fieldNameOrId) then
          ret (Some (parseInt (refToString fieldNameOrId)))
        else
          (case fieldNameOrId of
             Number _ \<Rightarrow> throw (Error ''fieldNameOrId.startsWith is not a function'')
           | Str name \<Rightarrow>
               (let idPart = replaceFirst ''field_'' [] name in
                if startsWith name ''field_'' \<and> \<not> isNaN idPart then
                  ret (Some (parseInt idPart))
                else
                  bind (fetch (getRequest (apiUrl @ ''/api/database/fields/table/'' @ tableId @ ''/'') apiToken)
                              (listFields be tableId))
                    (\<lambda>fieldsResponse.
                       if \<not> ok fieldsResponse then
                         throw (Error (''Failed to get fields: '' @ interpolate (int (status fieldsResponse))))
                       else
                         bind (await (readJson fieldsResponse))
                           (\<lambda>fields.
                              case find (\<lambda>f. fld_name f = name) fields of
                                None \<Rightarrow>
                                  throw (Error (''Field '' @ [dquote] @ name @ [dquote] @
                                                '' not found in table '' @ tableId))
                              | Some f \<Rightarrow> ret (Some (toNumber (fld_id f))))))))
       (\<lambda>error.
          bind (warn (''Field resolution failed: '' @ message error))
            (\<lambda>_. ret None))"

section \<open>Upload and attach: \<open>uploadImageUrl\<close> and \<open>uploadFile\<close>\<close>

text \<open>
  The object both functions return. \<open>updated_row\<close> and \<open>row_update_error\<close> are keys
  that an object literal of the code may or may not have (\<open>None\<close>: the key is absent).
\<close>

record uploadOutcome =
  success :: bool
  uploaded_file :: json
  updated_row :: "json option"
  row_update_error :: "string option"

text \<open>\<open>!BASEROW_API_URL || !BASEROW_API_TOKEN\<close> on the two environment variables.\<close>

fun credentials :: "env \<Rightarrow> (string \<times> string) option" where
  "credentials ev =
     (case (BASEROW_API_URL ev, BASEROW_API_TOKEN ev) of
        (Some u, Some t) \<Rightarrow> if u \<noteq> [] \<and> t \<noteq> [] then Some (u, t) else None
      | _ \<Rightarrow> None)"

definition envError :: error where
  "envError = Error ''BASEROW_API_URL and BASEROW_API_TOKEN environment variables are required''"

text \<open>\<open>tableId && rowId && fieldName\<close>: all three supplied and none of them empty.\<close>

fun allSupplied :: "string option \<Rightarrow> string option \<Rightarrow> string option \<Rightarrow> (string \<times> string \<times> string) option" where
  "allSupplied (Some t) (Some r) (Some f) = (if t \<noteq> [] \<and> r \<noteq> [] \<and> f \<noteq> [] then Some (t, r, f) else None)"
| "allSupplied _ _ _ = None"

definition uploadOnly :: "json \<Rightarrow> uploadOutcome" where
  "uploadOnly uploadResult =
     \<lparr>success = True, uploaded_file = uploadResult, updated_row = None, row_update_error = None\<rparr>"

definition patchRequest :: "string \<Rightarrow> string \<Rightarrow> string \<Rightarrow> string \<Rightarrow> json \<Rightarrow> request" where
  "patchRequest apiUrl apiToken tableId rowId updatePayload =
     \<lparr>httpMethod = ''PATCH'',
      url = apiUrl @ ''/api/database/rows/table/'' @ tableId @ ''/'' @ rowId @ ''/'',
      headers = [(''Authorization'', ''Token '' @ apiToken), (''Content-Type'', ''application/json'')],
      body = JsonBody updatePayload\<rparr>"

text \<open>
  Step 2 of both functions (\<open>// Step 2: If table/row/field info provided, update the
  row\<close>), which the two bodies contain word for word, down to the final
  \<open>return {success: true, uploaded_file: uploadResult}\<close>.
\<close>

definition updateRowStep ::
  "backend \<Rightarrow> string \<Rightarrow> string \<Rightarrow> json \<Rightarrow> string option \<Rightarrow> string option \<Rightarrow> string option
     \<Rightarrow> ('z world_scheme, uploadOutcome) io" where
  "updateRowStep be apiUrl apiToken uploadResult tableId rowId fieldName =
     (case allSupplied tableId rowId fieldName of
        Some (tableId', rowId', fieldName') \<Rightarrow>
          bind (getFieldId be tableId' (Str fieldName') apiUrl apiToken)
            (\<lambda>fieldId.
               if \<not> truthyId fieldId then
                 ret ((uploadOnly uploadResult)
                        \<lparr>row_update_error :=
                           Some (''Failed to resolve field '' @ [dquote] @ fieldName' @ [dquote] @
                                 '' in table '' @ tableId')\<rparr>)
               else
                 (let updatePayload =
                        JObj [(''field_'' @ (case fieldId of None \<Rightarrow> ''null'' | Some n \<Rightarrow> numberToString n),
                               JArr [uploadResult])]
                  in bind (fetch (patchRequest apiUrl apiToken tableId' rowId' updatePayload)
                                 (patchRow be tableId' rowId' updatePayload))
                       (\<lambda>updateResponse.
                          if \<not> ok updateResponse then
                            bind (await (readText updateResponse))
                              (\<lambda>errorText.
                                 bind (warn (''Row update failed: '' @ interpolate (int (status updateResponse)) @ '' '' @
                                             statusText updateResponse @ ''. '' @ errorText))
                                   (\<lambda>_. ret ((uploadOnly uploadResult)
                                                \<lparr>row_update_error :=
                                                   Some (''Failed to update row: '' @
                                                         interpolate (int (status updateResponse)) @ '' '' @
                                                         statusText updateResponse)\<rparr>)))
                          else
                            bind (await (readJson updateResponse))
                              (\<lambda>updateResult.
                                 ret ((uploadOnly uploadResult)\<lparr>updated_row := Some updateResult\<rparr>)))))
      | None \<Rightarrow> ret (uploadOnly uploadResult))"

text \<open>What follows a resolved upload request in both functions.\<close>

definition readUpload :: "'a response \<Rightarrow> ('s, 'a) io" where
  "readUpload uploadResponse =
     (if \<not> ok uploadResponse then
        bind (await (readText uploadResponse))
          (\<lambda>errorText.
             throw (Error (''Upload failed: '' @ interpolate (int (status uploadResponse)) @ '' '' @
                           statusText uploadResponse @ ''. '' @ errorText)))
      else await (readJson uploadResponse))"

text \<open>\<open>const uploadPayload = { url }; if (filename) { uploadPayload.filename = filename; }\<close>\<close>

definition urlUploadPayload :: "string \<Rightarrow> string option \<Rightarrow> json" where
  "urlUploadPayload imageUrl filename =
     JObj ((''url'', JStr imageUrl) #
           (case filename of
              None \<Rightarrow> []
            | Some n \<Rightarrow> if n \<noteq> [] then [(''filename'', JStr n)] else []))"

definition uploadUrlRequest :: "string \<Rightarrow> string \<Rightarrow> json \<Rightarrow> request" where
  "uploadUrlRequest apiUrl apiToken uploadPayload =
     \<lparr>httpMethod = ''POST'', url = apiUrl @ ''/api/user-files/upload-via-url/'',
      headers = [(''Authorization'', ''Token '' @ apiToken), (''Content-Type'', ''application/json'')],
      body = JsonBody uploadPayload\<rparr>"

definition uploadImageUrl ::
  "env \<Rightarrow> backend \<Rightarrow> string \<Rightarrow> string option \<Rightarrow> string option \<Rightarrow> string option \<Rightarrow> string option
     \<Rightarrow> ('z world_scheme, uploadOutcome) io" where
  "uploadImageUrl ev be imageUrl filename tableId rowId fieldName =
     (case credentials ev of
        None \<Rightarrow> throw envError
      | Some (apiUrl, apiToken) \<Rightarrow>
          catch
            (let uploadPayload = urlUploadPayload imageUrl filename
             in bind (fetch (uploadUrlRequest apiUrl apiToken uploadPayload)
                            (uploadViaUrl be uploadPayload))
                  (\<lambda>uploadResponse.
                     bind (readUpload uploadResponse)
                       (\<lambda>uploadResult.
                          updateRowStep be apiUrl apiToken uploadResult tableId rowId fieldName)))
            (\<lambda>error. throw (Error (''Upload failed: '' @ message error))))"

text \<open>
  The local file system as \<open>uploadFile\<close> sees it: \<open>None\<close> when \<open>existsSync\<close> is false,
  otherwise what \<open>readFileSync\<close> does (it throws on a directory or an unreadable file).
  \<open>basename\<close> is \<open>path.basename\<close> on POSIX paths.
\<close>

type_synonym filesystem = "string \<Rightarrow> (error + string) option"

definition basename :: "string \<Rightarrow> string" where
  "basename p =
     rev (takeWhile (\<lambda>c. c \<noteq> CHR ''/'') (dropWhile (\<lambda>c. c = CHR ''/'') (rev p)))"

text \<open>\<open>filename || path.basename(filePath)\<close>\<close>

fun filenameOr :: "string option \<Rightarrow> string \<Rightarrow> string" where
  "filenameOr None d = d"
| "filenameOr (Some n) d = (if n \<noteq> [] then n else d)"

definition uploadFileRequest :: "string \<Rightarrow> string \<Rightarrow> string \<Rightarrow> string \<Rightarrow> request" where
  "uploadFileRequest apiUrl apiToken fileBuffer originalFilename =
     \<lparr>httpMethod = ''POST'', url = apiUrl @ ''/api/user-files/upload-file/'',
      headers = [(''Authorization'', ''Token '' @ apiToken)],
      body = FormData fileBuffer originalFilename\<rparr>"

definition uploadFile ::
  "env \<Rightarrow> filesystem \<Rightarrow> backend \<Rightarrow> string \<Rightarrow> string option \<Rightarrow> string option \<Rightarrow> string option \<Rightarrow> string option
     \<Rightarrow> ('z world_scheme, uploadOutcome) io" where
  "uploadFile ev fs be filePath filename tableId rowId fieldName =
     (case credentials ev of
        None \<Rightarrow> throw envError
      | Some (apiUrl, apiToken) \<Rightarrow>
          catch
            (case fs filePath of
               None \<Rightarrow> throw (Error (''File not found: '' @ filePath))
             | Some contents \<Rightarrow>
                 bind (await contents)
                   (\<lambda>fileBuffer.
                      let originalFilename = filenameOr filename (basename filePath)
                      in bind (fetch (uploadFileRequest apiUrl apiToken fileBuffer originalFilename)
                                     (uploadFileData be fileBuffer originalFilename))
                           (\<lambda>uploadResponse.
                              bind (readUpload uploadResponse)
                                (\<lambda>uploadResult.
                                   updateRowStep be apiUrl apiToken uploadResult tableId rowId fieldName))))
            (\<lambda>error. throw (Error (''File upload failed: '' @ message error))))"

section \<open>Structure discovery: \<open>readBaserowStructure\<close>\<close>

text \<open>The nested report the walker builds.\<close>

record fieldInfo =
  fi_id :: int
  fi_name :: string
  fi_type :: string
  fi_primary :: json
  fi_order :: int
  fi_description :: json
  fi_fileTypes :: "json option"
  fi_multipleFiles :: "json option"
  fi_selectOptions :: "json option"
  fi_linkRowTable :: "json option"
  fi_linkRowTableId :: "json option"

record tableInfo =
  ti_id :: int
  ti_name :: string
  ti_order :: int
  ti_fields :: "fieldInfo list"
  ti_rowCount :: int
  ti_sampleRows :: "json list"

record appInfo =
  ai_id :: int
  ai_name :: string
  ai_type :: string
  ai_tables :: "tableInfo list"

record workspaceInfo =
  wi_id :: int
  wi_name :: string
  wi_applications :: "appInfo list"

record summary =
  totalWorkspaces :: nat
  totalApplications :: nat
  totalTables :: nat
  totalFields :: nat

record "structure" =
  workspaces :: "workspaceInfo list"
  summary :: summary

record readResult =
  read_success :: bool
  read_structure :: "structure"
  read_message :: string

text \<open>
  While the walker runs, \<open>structure.summary\<close> is updated from inside all three loops: it
  is part of the state, next to the requests and warnings.
\<close>

record walkState = world +
  counters :: summary

definition updateSummary :: "(summary \<Rightarrow> summary) \<Rightarrow> (walkState, unit) io" where
  "updateSummary f = (\<lambda>s. (Inr (), s\<lparr>counters := f (counters s)\<rparr>))"

definition getSummary :: "(walkState, summary) io" where
  "getSummary = (\<lambda>s. (Inr (counters s), s))"

text \<open>The object built by \<open>fieldsData.map(field => ({...}))\<close>, with its conditional spreads.\<close>

definition fieldInfoOf :: "field \<Rightarrow> fieldInfo" where
  "fieldInfoOf f =
     \<lparr>fi_id = fld_id f,
      fi_name = fld_name f,
      fi_type = fld_type f,
      fi_primary = orElse (fld_primary f) (JBool False),
      fi_order = fld_order f,
      fi_description = orElse (fld_description f) JNull,
      fi_fileTypes = (if fld_type f = ''file'' then Some (orElse (fld_file_types f) JNull) else None),
      fi_multipleFiles =
        (if fld_type f = ''file'' then Some (orElse (fld_multiple_files f) (JBool False)) else None),
      fi_selectOptions =
        (if fld_type f = ''single_select'' \<or> fld_type f = ''multiple_select''
         then Some (orElse (fld_select_options f) (JArr [])) else None),
      fi_linkRowTable = (if fld_type f = ''link_row'' then Some (orElse (fld_link_row_table f) JNull) else None),
      fi_linkRowTableId =
        (if fld_type f = ''link_row'' then Some (orElse (fld_link_row_table_id f) JNull) else None)\<rparr>"

text \<open>
  The body of the innermost loop (\<open>// Step 4: For each table, get fields and optionally
  rows\<close>); \<open>tables\<close> is \<open>appInfo.tables\<close> before the iteration and the result is that
  array after \<open>appInfo.tables.push(tableInfo)\<close>.
\<close>

definition tableStep ::
  "backend \<Rightarrow> string \<Rightarrow> string \<Rightarrow> bool \<Rightarrow> int \<Rightarrow> table \<Rightarrow> tableInfo list \<Rightarrow> (walkState, tableInfo list) io" where
  "tableStep be apiUrl apiToken includeRows maxRows tbl tables =
     (let tableInfo = \<lparr>ti_id = tbl_id tbl, ti_name = tbl_name tbl, ti_order = tbl_order tbl,
                       ti_fields = [], ti_rowCount = 0, ti_sampleRows = []\<rparr>
      in bind (fetch (getRequest (apiUrl @ ''/api/database/fields/table/'' @ interpolate (tbl_id tbl) @ ''/'') apiToken)
                     (listFields be (interpolate (tbl_id tbl))))
           (\<lambda>fieldsResponse.
              bind (if ok fieldsResponse then
                      bind (await (readJson fieldsResponse))
                        (\<lambda>fieldsData.
                           bind (updateSummary (\<lambda>c. c\<lparr>totalFields := totalFields c + length fieldsData\<rparr>))
                             (\<lambda>_. ret (tableInfo\<lparr>ti_fields := map fieldInfoOf fieldsData\<rparr>)))
                    else ret tableInfo)
                (\<lambda>tableInfo.
                   bind (if includeRows then
                           bind (fetch (getRequest (apiUrl @ ''/api/database/rows/table/'' @ interpolate (tbl_id tbl) @
                                                    ''/?size='' @ interpolate maxRows) apiToken)
                                       (listRows be (tbl_id tbl) maxRows))
                             (\<lambda>rowsResponse.
                                if ok rowsResponse then
                                  bind (await (readJson rowsResponse))
                                    (\<lambda>rowsData.
                                       ret (tableInfo
                                              \<lparr>ti_rowCount := (case rows_count rowsData of None \<Rightarrow> 0 | Some n \<Rightarrow> n),
                                               ti_sampleRows :=
                                                 (case rows_results rowsData of None \<Rightarrow> [] | Some rs \<Rightarrow> rs)\<rparr>))
                                else ret tableInfo)
                         else ret tableInfo)
                     (\<lambda>tableInfo. ret (tables @ [tableInfo])))))"

text \<open>
  The body of the middle loop (\<open>// Step 3: For each application, get tables\<close>);
  \<open>applications\<close> is \<open>workspaceInfo.applications\<close>.
\<close>

definition applicationStep ::
  "backend \<Rightarrow> string \<Rightarrow> string \<Rightarrow> bool \<Rightarrow> int \<Rightarrow> application \<Rightarrow> appInfo list \<Rightarrow> (walkState, appInfo list) io" where
  "applicationStep be apiUrl apiToken includeRows maxRows app applications =
     (if app_type app \<noteq> ''database'' then ret applications
      else
        (let appInfo = \<lparr>ai_id = app_id app, ai_name = app_name app, ai_type = app_type app, ai_tables = []\<rparr>
         in bind (fetch (getRequest (apiUrl @ ''/api/database/tables/database/'' @ interpolate (app_id app) @ ''/'') apiToken)
                        (listTables be (app_id app)))
              (\<lambda>tablesResponse.
                 if \<not> ok tablesResponse then
                   bind (warn (''Failed to fetch tables for application '' @ interpolate (app_id app) @ '': '' @
                               interpolate (int (status tablesResponse))))
                     (\<lambda>_. ret (applications @ [appInfo]))
                 else
                   bind (await (readJson tablesResponse))
                     (\<lambda>tablesData.
                        bind (updateSummary (\<lambda>c. c\<lparr>totalTables := totalTables c + length tablesData\<rparr>))
                          (\<lambda>_. bind (forOf tablesData (tableStep be apiUrl apiToken includeRows maxRows) [])
                                  (\<lambda>tables. ret (applications @ [appInfo\<lparr>ai_tables := tables\<rparr>])))))))"

text \<open>
  The body of the outer loop (\<open>// Step 2: For each workspace, get applications and
  tables\<close>); \<open>done\<close> is \<open>structure.workspaces\<close>.
\<close>

definition workspaceStep ::
  "backend \<Rightarrow> string \<Rightarrow> string \<Rightarrow> bool \<Rightarrow> int \<Rightarrow> workspace \<Rightarrow> workspaceInfo list
     \<Rightarrow> (walkState, workspaceInfo list) io" where
  "workspaceStep be apiUrl apiToken includeRows maxRows ws done =
     (let workspaceInfo = \<lparr>wi_id = ws_id ws, wi_name = ws_name ws, wi_applications = []\<rparr>
      in bind (fetch (getRequest (apiUrl @ ''/api/applications/workspace/'' @ interpolate (ws_id ws) @ ''/'') apiToken)
                     (listApplications be (ws_id ws)))
           (\<lambda>appsResponse.
              if \<not> ok appsResponse then
                bind (warn (''Failed to fetch applications for workspace '' @ interpolate (ws_id ws) @ '': '' @
                            interpolate (int (status appsResponse))))
                  (\<lambda>_. ret (done @ [workspaceInfo]))
              else
                bind (await (readJson appsResponse))
                  (\<lambda>appsData.
                     bind (updateSummary (\<lambda>c. c\<lparr>totalApplications := totalApplications c + length appsData\<rparr>))
                       (\<lambda>_. bind (forOf appsData (applicationStep be apiUrl apiToken includeRows maxRows) [])
                               (\<lambda>applications.
                                  ret (done @ [workspaceInfo\<lparr>wi_applications := applications\<rparr>]))))))"

definition foundMessage :: "summary \<Rightarrow> string" where
  "foundMessage c =
     ''Found '' @ interpolate (int (totalWorkspaces c)) @ '' workspaces, '' @ interpolate (int (totalApplications c)) @
     '' applications, '' @ interpolate (int (totalTables c)) @ '' tables, and '' @ interpolate (int (totalFields c)) @ '' fields''"

text \<open>\<open>workspacesData.results || []\<close>, whose length is \<open>workspacesData.results?.length || 0\<close>.\<close>

definition resultsOrEmpty :: "workspacesData \<Rightarrow> workspace list" where
  "resultsOrEmpty workspacesData = (case results workspacesData of None \<Rightarrow> [] | Some ws \<Rightarrow> ws)"

text \<open>The \<open>try\<close> block of \<open>readBaserowStructure\<close>.\<close>

definition readStructureBody :: "backend \<Rightarrow> string \<Rightarrow> string \<Rightarrow> bool \<Rightarrow> int \<Rightarrow> (walkState, readResult) io" where
  "readStructureBody be apiUrl apiToken includeRows maxRows =
     bind (updateSummary (\<lambda>_. \<lparr>totalWorkspaces = 0, totalApplications = 0, totalTables = 0, totalFields = 0\<rparr>))
       (\<lambda>_. bind (fetch (getRequest (apiUrl @ ''/api/workspaces/'') apiToken) (listWorkspaces be))
          (\<lambda>workspacesResponse.
             if \<not> ok workspacesResponse then
               throw (Error (''Failed to fetch workspaces: '' @ interpolate (int (status workspacesResponse)) @ '' '' @
                             statusText workspacesResponse))
             else
               bind (await (readJson workspacesResponse))
                 (\<lambda>workspacesData.
                    bind (updateSummary (\<lambda>c. c\<lparr>totalWorkspaces := length (resultsOrEmpty workspacesData)\<rparr>))
                      (\<lambda>_. bind (forOf (resultsOrEmpty workspacesData)
                                    (workspaceStep be apiUrl apiToken includeRows maxRows) [])
                              (\<lambda>done.
                                 bind getSummary
                                   (\<lambda>c. ret \<lparr>read_success = True,
                                              read_structure = \<lparr>workspaces = done, summary = c\<rparr>,
                                              read_message = foundMessage c\<rparr>))))))"

definition readBaserowStructure :: "env \<Rightarrow> backend \<Rightarrow> bool \<Rightarrow> int \<Rightarrow> (walkState, readResult) io" where
  "readBaserowStructure ev be includeRows maxRows =
     (case credentials ev of
        None \<Rightarrow> throw envError
      | Some (apiUrl, apiToken) \<Rightarrow>
          catch (readStructureBody be apiUrl apiToken includeRows maxRows)
            (\<lambda>error. throw (Error (''Failed to read Baserow structure: '' @ message error))))"

section \<open>The report the specification describes\<close>

text \<open>
  What a fetch delivers to the walker: the parsed body of a response with a success
  status, and nothing otherwise.
\<close>

definition delivered :: "'a fetched \<Rightarrow> 'a option" where
  "delivered res =
     (case res of
        Rejected _ \<Rightarrow> None
      | Resolved r \<Rightarrow> if ok r then (case readJson r of Inl _ \<Rightarrow> None | Inr x \<Rightarrow> Some x) else None)"

definition deliveredList :: "'a list fetched \<Rightarrow> 'a list" where
  "deliveredList res = (case delivered res of None \<Rightarrow> [] | Some xs \<Rightarrow> xs)"

text \<open>
  The specification's description of the report, written as plain functions of the
  backend, to be compared with what the loops of the code build: every table of an
  application appears with the fields its field list delivered (none if that fetch
  failed) and, when rows are requested, the count and sample its row page delivered;
  every database application of a workspace appears with its tables (none if that fetch
  failed); every workspace appears with its database applications (none if that fetch
  failed).
\<close>

definition expectedTable :: "backend \<Rightarrow> bool \<Rightarrow> int \<Rightarrow> table \<Rightarrow> tableInfo" where
  "expectedTable be includeRows maxRows tbl =
     (let rowsData = (if includeRows then delivered (listRows be (tbl_id tbl) maxRows) else None) in
      \<lparr>ti_id = tbl_id tbl, ti_name = tbl_name tbl, ti_order = tbl_order tbl,
       ti_fields = map fieldInfoOf (deliveredList (listFields be (interpolate (tbl_id tbl)))),
       ti_rowCount = (case rowsData of None \<Rightarrow> 0 | Some d \<Rightarrow> (case rows_count d of None \<Rightarrow> 0 | Some n \<Rightarrow> n)),
       ti_sampleRows =
         (case rowsData of None \<Rightarrow> [] | Some d \<Rightarrow> (case rows_results d of None \<Rightarrow> [] | Some rs \<Rightarrow> rs))\<rparr>)"

definition expectedApplication :: "backend \<Rightarrow> bool \<Rightarrow> int \<Rightarrow> application \<Rightarrow> appInfo" where
  "expectedApplication be includeRows maxRows app =
     \<lparr>ai_id = app_id app, ai_name = app_name app, ai_type = app_type app,
      ai_tables = map (expectedTable be includeRows maxRows) (deliveredList (listTables be (app_id app)))\<rparr>"

definition expectedWorkspace :: "backend \<Rightarrow> bool \<Rightarrow> int \<Rightarrow> workspace \<Rightarrow> workspaceInfo" where
  "expectedWorkspace be includeRows maxRows ws =
     \<lparr>wi_id = ws_id ws, wi_name = ws_name ws,
      wi_applications =
        map (expectedApplication be includeRows maxRows)
          (filter (\<lambda>a. app_type a = ''database'') (deliveredList (listApplications be (ws_id ws))))\<rparr>"

text \<open>
  A fetch answers when it resolves to a response whose body, if the status is a
  success, parses.
\<close>

definition answers :: "'a fetched \<Rightarrow> bool" where
  "answers res =
     (case res of
        Rejected _ \<Rightarrow> False
      | Resolved r \<Rightarrow> (case readJson r of Inl _ \<Rightarrow> \<not> ok r | Inr _ \<Rightarrow> True))"

text \<open>
  A computation fails on a rejected fetch when every request it issues that the
  transport rejects makes it end with the error of that rejection.
\<close>

definition failsOnReject :: "('z world_scheme, 'a) io \<Rightarrow> bool" where
  "failsOnReject m =
     (\<forall>s. \<exists>new. requests (snd (m s)) = requests s @ new \<and>
                 (\<forall>q e. (q, Some e) \<in> set new \<longrightarrow> fst (m s) = Inl e))"

section \<open>Sample backends\<close>

text \<open>Concrete responses, backends and inputs on which the results below are exercised.\<close>

definition respondOk :: "'a \<Rightarrow> 'a fetched" where
  "respondOk x =
     Resolved \<lparr>ok = True, status = 200, statusText = ''OK'', readText = Inr [], readJson = Inr x\<rparr>"

definition respondStatus :: "nat \<Rightarrow> string \<Rightarrow> string \<Rightarrow> 'a fetched" where
  "respondStatus code reason bodyText =
     Resolved \<lparr>ok = False, status = code, statusText = reason, readText = Inr bodyText,
               readJson = Inl (Error ''Unexpected token in JSON'')\<rparr>"

definition offline :: backend where
  "offline =
     \<lparr>listWorkspaces = Rejected (Error ''fetch failed''),
      listApplications = (\<lambda>_. Rejected (Error ''fetch failed'')),
      listTables = (\<lambda>_. Rejected (Error ''fetch failed'')),
      listFields = (\<lambda>_. Rejected (Error ''fetch failed'')),
      listRows = (\<lambda>_ _. Rejected (Error ''fetch failed'')),
      uploadViaUrl = (\<lambda>_. Rejected (Error ''fetch failed'')),
      uploadFileData = (\<lambda>_ _. Rejected (Error ''fetch failed'')),
      patchRow = (\<lambda>_ _ _. Rejected (Error ''fetch failed''))\<rparr>"

definition sampleEnv :: env where
  "sampleEnv = \<lparr>BASEROW_API_URL = Some ''https://api.baserow.io'', BASEROW_API_TOKEN = Some ''test_token''\<rparr>"

definition quiet :: world where
  "quiet = \<lparr>requests = [], warnings = []\<rparr>"

definition plainField :: "int \<Rightarrow> string \<Rightarrow> string \<Rightarrow> field" where
  "plainField i n t =
     \<lparr>fld_id = i, fld_name = n, fld_type = t, fld_primary = None, fld_order = 0, fld_description = None,
      fld_file_types = None, fld_multiple_files = None, fld_select_options = None,
      fld_link_row_table = None, fld_link_row_table_id = None\<rparr>"

text \<open>A table whose field list holds a field named \<open>12.5\<close> with id 7.\<close>

definition oddNames :: backend where
  "oddNames = offline\<lparr>listFields := (\<lambda>_. respondOk [plainField 7 ''12.5'' ''file''])\<rparr>"

text \<open>
  A backend on which an upload, the field list of any table and a row patch all succeed;
  \<open>rowMissing\<close> answers the patch with 404, \<open>patchUnreachable\<close> lets the patch request
  fail in the transport.
\<close>

definition sampleUpload :: json where
  "sampleUpload = JObj [(''name'', JStr ''uploaded_image.jpg''),
                        (''url'', JStr ''https://api.baserow.io/media/user_files/test.jpg'')]"

definition attachable :: backend where
  "attachable = offline
     \<lparr>listFields := (\<lambda>_. respondOk [plainField 789 ''image_field'' ''file'']),
      uploadViaUrl := (\<lambda>_. respondOk sampleUpload),
      uploadFileData := (\<lambda>_ _. respondOk sampleUpload),
      patchRow := (\<lambda>_ _ _. respondOk (JObj [(''id'', JNum 456)]))\<rparr>"

definition rowMissing :: backend where
  "rowMissing = attachable\<lparr>patchRow := (\<lambda>_ _ _. respondStatus 404 ''Not Found'' ''Row not found'')\<rparr>"

definition patchUnreachable :: backend where
  "patchUnreachable = attachable\<lparr>patchRow := (\<lambda>_ _ _. Rejected (Error ''fetch failed''))\<rparr>"

definition disk :: filesystem where
  "disk = (\<lambda>p. if p = ''/tmp/photo.jpg'' then Some (Inr ''JFIF'') else None)"

text \<open>Backends for the walker.\<close>

definition idle :: walkState where
  "idle = \<lparr>requests = [], warnings = [],
           counters = \<lparr>totalWorkspaces = 0, totalApplications = 0, totalTables = 0, totalFields = 0\<rparr>\<rparr>"

definition unauthorized :: backend where
  "unauthorized = offline\<lparr>listWorkspaces := respondStatus 401 ''Unauthorized'' []\<rparr>"

text \<open>One workspace is listed; the request for its applications fails in the transport.\<close>

definition appsUnreachable :: backend where
  "appsUnreachable =
     offline\<lparr>listWorkspaces := respondOk \<lparr>results = Some [\<lparr>ws_id = 1, ws_name = ''Workspace''\<rparr>]\<rparr>\<rparr>"

text \<open>
  Two workspaces. The applications of workspace 1 answer 404. Workspace 2 has the
  database applications 101 and 103 and the form application 102; the tables of 101
  answer 500; 103 has the tables 201 and 202; the fields of 201 answer 403 and 202 has
  two fields. Every row page holds one row out of two.
\<close>

definition patchy :: backend where
  "patchy =
     offline
       \<lparr>listWorkspaces := respondOk \<lparr>results = Some [\<lparr>ws_id = 1, ws_name = ''A''\<rparr>, \<lparr>ws_id = 2, ws_name = ''B''\<rparr>]\<rparr>,
        listApplications :=
          (\<lambda>w. if w = 1 then respondStatus 404 ''Not Found'' []
                else respondOk [\<lparr>app_id = 101, app_name = ''Shop'', app_type = ''database''\<rparr>,
                                \<lparr>app_id = 102, app_name = ''Survey'', app_type = ''form''\<rparr>,
                                \<lparr>app_id = 103, app_name = ''Stock'', app_type = ''database''\<rparr>]),
        listTables :=
          (\<lambda>a. if a = 101 then respondStatus 500 ''Internal Server Error'' []
                else respondOk [\<lparr>tbl_id = 201, tbl_name = ''Products'', tbl_order = 0\<rparr>,
                                \<lparr>tbl_id = 202, tbl_name = ''Orders'', tbl_order = 1\<rparr>]),
        listFields :=
          (\<lambda>t. if t = ''201'' then respondStatus 403 ''Forbidden'' []
                else respondOk [plainField 301 ''Name'' ''text'', plainField 302 ''Image'' ''file'']),
        listRows := (\<lambda>_ _. respondOk \<lparr>rows_count = Some 2, rows_results = Some [JObj [(''id'', JNum 1)]]\<rparr>)\<rparr>"

section \<open>Facts about Numbers\<close>

text \<open>
  Values of the conversions at some integers, as the language prints them: \<open>2\<^sup>6\<^sup>0\<close> is
  printed with the 16 digits that identify it, \<open>10\<^sup>2\<^sup>1\<close> and \<open>2\<^sup>7\<^sup>0\<close> in exponent
  notation, and \<open>2\<^sup>5\<^sup>3 + 1\<close> is not a Number.
\<close>

lemma number_conversion_samples:
  "interpolate 404 = ''404'' \<and>
   interpolate (- 17) = ''-17'' \<and>
   interpolate 1152921504606846976 = ''1152921504606847000'' \<and>
   interpolate 999999999999999868928 = ''999999999999999900000'' \<and>
   interpolate 1000000000000000000000 = ''1e+21'' \<and>
   interpolate 1180591620717411303424 = ''1.1805916207174113e+21'' \<and>
   toNumber 9007199254740993 = Num 9007199254740992 \<and>
   toNumber 9007199254740995 = Num 9007199254740996 \<and>
   toNumber (2 ^ 1024) = PosInfinity"
  by code_simp

text \<open>
  Rounding leaves an integer below \<open>2\<^sup>5\<^sup>3\<close> as it is and keeps a larger one at or above
  \<open>2\<^sup>5\<^sup>3\<close>; so an integer below \<open>2\<^sup>5\<^sup>3\<close> is printed as its decimal numeral.
\<close>

lemma bitLength_bounds:
  "0 < n \<Longrightarrow> 2 ^ (bitLength n - 1) \<le> n \<and> n < 2 ^ bitLength n"
proof (induction n rule: bitLength.induct)
  case (1 n)
  show ?case
  proof (cases "n = 1")
    case True
    have "bitLength 1 = 1"
      by (simp add: bitLength.simps)
    with True show ?thesis
      by simp
  next
    case False
    with "1.prems" have half: "0 < n div 2"
      by simp
    from "1.prems" have "\<not> n \<le> 0"
      by simp
    from "1.IH" [OF this half]
    have ih: "2 ^ (bitLength (n div 2) - 1) \<le> n div 2" "n div 2 < 2 ^ bitLength (n div 2)"
      by simp_all
    from half have pos: "0 < bitLength (n div 2)"
      by (subst bitLength.simps) simp
    from "1.prems" have unfold: "bitLength n = Suc (bitLength (n div 2))"
      by (subst bitLength.simps) simp
    from pos obtain k where k: "bitLength (n div 2) = Suc k"
      by (cases "bitLength (n div 2)") simp_all
    from ih k have "2 * 2 ^ k \<le> n" "n < 2 * 2 ^ Suc k"
      by simp_all
    with unfold k show ?thesis
      by simp
  qed
qed

lemma toDouble_small:
  "n < 9007199254740992 \<Longrightarrow> toDouble n = Some n"
  by (simp add: toDouble_def)

lemma toDouble_range:
  "\<not> n < 9007199254740992 \<Longrightarrow> toDouble n = Some w \<Longrightarrow>
     w = n div 2 ^ (bitLength n - 53) * 2 ^ (bitLength n - 53) \<or>
     w = n div 2 ^ (bitLength n - 53) * 2 ^ (bitLength n - 53) + 2 ^ (bitLength n - 53)"
  by (auto simp add: toDouble_def Let_def algebra_simps split: if_splits)

lemma toDouble_large:
  assumes big: "9007199254740992 \<le> n"
    and run: "toDouble n = Some w"
  shows "9007199254740992 \<le> w"
proof -
  from big have pos: "0 < n"
    by simp
  note b = bitLength_bounds [OF pos]
  have "53 < bitLength n"
  proof (rule ccontr)
    assume "\<not> 53 < bitLength n"
    then have "bitLength n \<le> 53"
      by simp
    then have "(2::int) ^ bitLength n \<le> 2 ^ 53"
      by (rule power_increasing) simp
    with b big show False
      by simp
  qed
  then obtain e where e: "bitLength n = 53 + Suc e"
    by (metis add_Suc_right less_imp_Suc_add)
  define E :: int where "E = 2 ^ Suc e"
  have E: "2 \<le> E"
    by (simp add: E_def)
  from b e have low: "(2::int) ^ 52 * E \<le> n"
    by (simp add: power_add E_def)
  have "(2::int) ^ 52 * E div E \<le> n div E"
    using low E by (intro zdiv_mono1) simp_all
  with E have q: "(2::int) ^ 52 \<le> n div E"
    by simp
  from q E have "(2::int) ^ 52 * 2 \<le> n div E * E"
    by (intro mult_mono) simp_all
  moreover from big have "\<not> n < 9007199254740992"
    by simp
  from toDouble_range [OF this run] e have "w = n div E * E \<or> w = n div E * E + E"
    by (simp add: E_def)
  ultimately show ?thesis
    using E by auto
qed

lemma toDouble_fixed:
  assumes "toDouble v = Some x" and "x < 9007199254740992"
  shows "v = x"
proof (cases "v < 9007199254740992")
  case True
  with assms show ?thesis
    by (simp add: toDouble_small)
next
  case False
  with toDouble_large [of v x] assms show ?thesis
    by simp
qed

lemma pick_valid:
  "pick x g = Some v \<Longrightarrow> toDouble v = Some x"
  by (simp add: pick_def Let_def split: if_splits)

lemma pick_range:
  "pick x g = Some v \<Longrightarrow> v = (x div g) * g \<or> v = (x div g) * g + g"
  by (simp add: pick_def Let_def split: if_splits)

lemma shortestFrom_valid:
  "toDouble x = Some x \<Longrightarrow> toDouble (shortestFrom x j) = Some x"
  by (induction j) (auto simp add: pick_valid split: option.splits)

lemma shortestFrom_small:
  "x < 9007199254740992 \<Longrightarrow> shortestFrom x j = x"
  by (induction j) (auto dest!: pick_valid dest: toDouble_fixed split: option.splits)

lemma showDigits_zero:
  "showDigits 0 = ''0''"
  by code_simp

lemma showMagnitude_safe:
  assumes "0 \<le> x" and "x < 9007199254740992"
  shows "showMagnitude x = showDigits x"
  using assms by (simp add: showMagnitude_def shortestDecimal_def shortestFrom_small showDigits_zero)

lemma toNumber_small:
  "- 9007199254740992 < i \<Longrightarrow> i < 9007199254740992 \<Longrightarrow> toNumber i = Num i"
  by (simp add: toNumber_def toDouble_small)

lemma interpolate_safe:
  "- 9007199254740992 < i \<Longrightarrow> i < 9007199254740992 \<Longrightarrow> interpolate i = showInt i"
  by (simp add: interpolate_def toNumber_small showInt_def showMagnitude_safe)

text \<open>
  The shortest decimal of a Number below \<open>10\<^sup>2\<^sup>1\<close> converts back to the Number and
  is itself below \<open>10\<^sup>2\<^sup>1\<close>, so it is printed in full.
\<close>

lemma showDigits_length:
  "0 \<le> x \<Longrightarrow> x < 10 ^ Suc k \<Longrightarrow> length (showDigits x) \<le> Suc k"
proof (induction k arbitrary: x)
  case 0
  then show ?case
    by (subst showDigits.simps) simp
next
  case (Suc k)
  show ?case
  proof (cases "x < 10")
    case True
    then show ?thesis
      by (subst showDigits.simps) simp
  next
    case False
    from Suc.prems have "x div 10 < 10 ^ Suc k"
      by simp
    moreover from Suc.prems have "0 \<le> x div 10"
      by simp
    ultimately have "length (showDigits (x div 10)) \<le> Suc k"
      by (rule Suc.IH [rotated])
    with False show ?thesis
      by (subst showDigits.simps) simp
  qed
qed

lemma next_multiple_le:
  fixes x g M :: int
  assumes g: "0 < g" and x: "x < M * g"
  shows "x div g * g + g \<le> M * g"
proof -
  have "x = x div g * g + x mod g"
    by simp
  moreover from g have "0 \<le> x mod g"
    by simp
  ultimately have "x div g * g \<le> x"
    by linarith
  with x have "x div g * g < M * g"
    by simp
  with g have "x div g < M"
    by (simp add: mult_less_cancel_right)
  then have "x div g + 1 \<le> M"
    by simp
  then have "(x div g + 1) * g \<le> M * g"
    using g by (intro mult_right_mono) simp_all
  then show ?thesis
    by (simp add: algebra_simps)
qed

lemma pick_bound:
  assumes p: "pick x (10 ^ j) = Some v"
    and j: "j \<le> 20"
    and x: "0 \<le> x" "x < 1000000000000000000000"
  shows "0 \<le> v \<and> v \<le> 1000000000000000000000"
proof -
  let ?g = "(10::int) ^ j"
  have g: "0 < ?g"
    by simp
  from j have "21 = j + (21 - j)"
    by simp
  then obtain m where m: "21 = j + m" ..
  have "(1000000000000000000000::int) = 10 ^ 21"
    by simp
  also have "\<dots> = 10 ^ m * ?g"
    unfolding m by (simp add: power_add)
  finally have top: "(1000000000000000000000::int) = 10 ^ m * ?g" .
  from x top have "x < 10 ^ m * ?g"
    by simp
  from next_multiple_le [OF g this] top
  have hi: "x div ?g * ?g + ?g \<le> 1000000000000000000000"
    by simp
  from x g have lo: "0 \<le> x div ?g * ?g"
    by (simp add: pos_imp_zdiv_nonneg_iff)
  from hi g have hi': "x div ?g * ?g \<le> 1000000000000000000000"
    by linarith
  from pick_range [OF p] lo hi hi' show ?thesis
    by auto
qed

lemma shortestFrom_bound:
  assumes x: "0 \<le> x" "x < 1000000000000000000000"
  shows "j \<le> 20 \<Longrightarrow> 0 \<le> shortestFrom x j \<and> shortestFrom x j \<le> 1000000000000000000000"
proof (induction j)
  case 0
  show ?case
  proof (cases "pick x 1")
    case None
    with x show ?thesis
      by simp
  next
    case (Some v)
    then have "pick x (10 ^ 0) = Some v"
      by simp
    from pick_bound [OF this _ x] Some show ?thesis
      by simp
  qed
next
  case (Suc j)
  show ?case
  proof (cases "pick x (10 ^ Suc j)")
    case None
    with Suc show ?thesis
      by simp
  next
    case (Some v)
    from pick_bound [OF Some Suc.prems x] Some show ?thesis
      by simp
  qed
qed

lemma toDouble_sextillion:
  "toDouble 1000000000000000000000 = Some 1000000000000000000000"
  by code_simp

lemma shortestDecimal_roundtrip:
  assumes x: "0 \<le> x" "x < 1000000000000000000000"
    and exact: "toDouble x = Some x"
  shows "toDouble (shortestDecimal x) = Some x"
    and "0 \<le> shortestDecimal x"
    and "shortestDecimal x < 1000000000000000000000"
proof -
  have "length (showDigits x) \<le> Suc 20"
    using x by (intro showDigits_length) simp_all
  then have j: "length (showDigits x) - 1 \<le> 20"
    by simp
  show valid: "toDouble (shortestDecimal x) = Some x"
    unfolding shortestDecimal_def by (rule shortestFrom_valid [OF exact])
  from shortestFrom_bound [OF x j]
  have b: "0 \<le> shortestDecimal x" "shortestDecimal x \<le> 1000000000000000000000"
    by (simp_all add: shortestDecimal_def)
  show "0 \<le> shortestDecimal x"
    by (rule b)
  show "shortestDecimal x < 1000000000000000000000"
  proof (rule ccontr)
    assume "\<not> shortestDecimal x < 1000000000000000000000"
    with b have "shortestDecimal x = 1000000000000000000000"
      by simp
    with valid toDouble_sextillion x show False
      by simp
  qed
qed

section \<open>Facts about the built-ins\<close>

lemma isDecimalDigit_iff:
  "isDecimalDigit c \<longleftrightarrow> (48 \<le> (of_char c :: nat) \<and> (of_char c :: nat) \<le> 57)"
  by (auto simp: isDecimalDigit_def isRadixDigit_def radixDigitValue_def Let_def
      split: option.splits if_splits)

lemma digit_not_space: "isDecimalDigit c \<Longrightarrow> \<not> isWhiteSpace c"
  by (auto simp: isDecimalDigit_iff isWhiteSpace_def)

lemma digit_not_punct:
  "isDecimalDigit c \<Longrightarrow>
     c \<noteq> CHR ''+'' \<and> c \<noteq> CHR ''-'' \<and> c \<noteq> CHR ''x'' \<and> c \<noteq> CHR ''X'' \<and> c \<noteq> CHR ''.''"
  by (auto simp: isDecimalDigit_iff)

lemma dropWhile_hd: "xs \<noteq> [] \<Longrightarrow> \<not> P (hd xs) \<Longrightarrow> dropWhile P xs = xs"
  by (cases xs) auto

lemma trim_id:
  assumes "s \<noteq> []" "\<not> isWhiteSpace (hd s)" "\<not> isWhiteSpace (last s)"
  shows "trim s = s"
proof -
  have lead: "dropWhile isWhiteSpace s = s"
    using assms by (simp add: dropWhile_hd)
  have "rev s \<noteq> []" "hd (rev s) = last s"
    using assms by (simp_all add: hd_rev)
  then have trail: "dropWhile isWhiteSpace (rev s) = rev s"
    using assms by (simp add: dropWhile_hd)
  show ?thesis by (simp add: trim_def lead trail)
qed

lemma decimalDigits_ends:
  "decimalDigits s \<Longrightarrow> s \<noteq> [] \<and> isDecimalDigit (hd s) \<and> isDecimalDigit (last s)"
  by (cases s) (auto simp: decimalDigits_def list_all_iff)

lemma dropSign_digits: "decimalDigits s \<Longrightarrow> dropSign s = s"
  by (cases s) (auto simp: dropSign_def decimalDigits_def dest: digit_not_punct)

lemma takeWhile_digits:
  "decimalDigits s \<Longrightarrow> takeWhile isDecimalDigit s = s \<and> dropWhile isDecimalDigit s = []"
  by (auto simp: decimalDigits_def list_all_iff)

lemma isNaN_digits: "decimalDigits s \<Longrightarrow> \<not> isNaN s"
  using decimalDigits_ends[of s]
  by (auto simp: isNaN_def Let_def trim_id digit_not_space strNumericLiteral_def strDecimalLiteral_def
      dropSign_digits strUnsignedDecimalLiteral_def takeWhile_digits)

lemma parseInt_digits:
  assumes d: "decimalDigits s"
  shows "parseInt s = toNumber (radixValue 10 s)"
proof -
  from d obtain c r where s: "s = c # r" and c: "isDecimalDigit c"
    by (cases s) (auto simp: decimalDigits_def)
  have 1: "trimStart s = s"
    using s c by (simp add: trimStart_def digit_not_space)
  have 2: "dropSign s = s"
    using d by (rule dropSign_digits)
  have 3: "take 2 s \<noteq> ''0x'' \<and> take 2 s \<noteq> ''0X''"
    using d s by (cases r) (auto simp: decimalDigits_def dest: digit_not_punct)
  have 4: "takeWhile (isRadixDigit 10) s = s"
    using takeWhile_digits[OF d] by (simp add: isDecimalDigit_def[abs_def])
  show ?thesis
    using c digit_not_punct[OF c] by (simp add: parseInt_def Let_def 1 2 3 4) (simp add: s)
qed

lemma parseInt_minus_digits:
  assumes d: "decimalDigits s"
  shows "parseInt (CHR ''-'' # s) = toNumber (- radixValue 10 s)"
proof -
  from d have ne: "s \<noteq> []"
    by (simp add: decimalDigits_def)
  have 1: "trimStart (CHR ''-'' # s) = CHR ''-'' # s"
    by (simp add: trimStart_def isWhiteSpace_def)
  have 2: "dropSign (CHR ''-'' # s) = s"
    by (simp add: dropSign_def)
  from d obtain c r where s: "s = c # r" and c: "isDecimalDigit c"
    by (cases s) (auto simp: decimalDigits_def)
  have 3: "take 2 s \<noteq> ''0x'' \<and> take 2 s \<noteq> ''0X''"
    using d s by (cases r) (auto simp: decimalDigits_def dest: digit_not_punct)
  have 4: "takeWhile (isRadixDigit 10) s = s"
    using takeWhile_digits[OF d] by (simp add: isDecimalDigit_def[abs_def])
  show ?thesis
    using ne by (simp add: parseInt_def Let_def 1 2 3 4)
qed

lemma field_prefix_facts:
  assumes "decimalDigits d"
  shows "isNaN (''field_'' @ d)" "\<not> allDigits (''field_'' @ d)" "startsWith (''field_'' @ d) ''field_''"
    "replaceFirst ''field_'' [] (''field_'' @ d) = d"
proof -
  have nd: "\<not> isDecimalDigit CHR ''f''"
    by (simp add: isDecimalDigit_iff)
  have nw: "\<not> isWhiteSpace CHR ''f''"
    by (simp add: isWhiteSpace_def)
  have l: "d \<noteq> []" "\<not> isWhiteSpace (last d)"
    using decimalDigits_ends[OF assms] digit_not_space by auto
  have t: "trim (''field_'' @ d) = ''field_'' @ d"
    by (rule trim_id) (use l nw in auto)
  show "isNaN (''field_'' @ d)"
    unfolding isNaN_def Let_def t
    by (simp add: strNumericLiteral_def strDecimalLiteral_def dropSign_def strUnsignedDecimalLiteral_def nd
        nonDecimalIntegerLiteral_def radixLiteral_def)
  show "\<not> allDigits (''field_'' @ d)"
    by (simp add: allDigits_def decimalDigits_def nd)
  show "startsWith (''field_'' @ d) ''field_''"
    by (simp add: startsWith_def)
  show "replaceFirst ''field_'' [] (''field_'' @ d) = d"
    by (simp add: startsWith_def)
qed

lemma foldl_radix_nonneg:
  "0 \<le> acc \<Longrightarrow> 0 \<le> foldl (\<lambda>acc c. acc * int R + int (g c)) acc ds"
  by (induction ds arbitrary: acc) simp_all

lemma radixValue_nonneg: "0 \<le> radixValue R ds"
  unfolding radixValue_def by (rule foldl_radix_nonneg) simp

lemma radixDigitValue_digitChar: "d < 10 \<Longrightarrow> radixDigitValue (digitChar d) = Some d"
  by (simp add: radixDigitValue_def digitChar_def Let_def)

lemma radixValue_snoc:
  "radixValue R (ds @ [c]) =
     radixValue R ds * int R + int (case radixDigitValue c of None \<Rightarrow> 0 | Some v \<Rightarrow> v)"
  by (simp add: radixValue_def)

lemma isDecimalDigit_digitChar: "d < 10 \<Longrightarrow> isDecimalDigit (digitChar d)"
  by (simp add: isDecimalDigit_def isRadixDigit_def radixDigitValue_digitChar)

text \<open>The decimal numeral of \<open>n\<close> is a digit string, and reading it back gives \<open>n\<close>.\<close>

lemma showDigits_digits:
  "0 \<le> n \<Longrightarrow> decimalDigits (showDigits n) \<and> radixValue 10 (showDigits n) = n"
proof (induction n rule: showDigits.induct)
  case (1 n)
  show ?case
  proof (cases "n < 10")
    case True
    with "1.prems" have "nat n < 10"
      by simp
    with True "1.prems" show ?thesis
      by (simp add: showDigits.simps[of n] decimalDigits_def isDecimalDigit_digitChar radixValue_def
          radixDigitValue_digitChar)
  next
    case False
    with 1 have ih: "decimalDigits (showDigits (n div 10))" "radixValue 10 (showDigits (n div 10)) = n div 10"
      by auto
    from "1.prems" have m: "nat (n mod 10) < 10"
      by simp
    from "1.prems" have cast: "int (nat (n mod 10)) = n mod 10"
      by simp
    show ?thesis
      using False ih
      by (simp add: showDigits.simps[of n] decimalDigits_def isDecimalDigit_digitChar[OF m] radixValue_snoc
          radixDigitValue_digitChar[OF m] cast)
  qed
qed

text \<open>
  Printing an integer-valued Number below \<open>10\<^sup>2\<^sup>1\<close> in magnitude and parsing the
  result gives the Number back.
\<close>

lemma toNumber_fixed_nonneg:
  "0 \<le> x \<Longrightarrow> toNumber x = Num x \<Longrightarrow> toDouble x = Some x"
  by (simp add: toNumber_def split: option.splits)

lemma toNumber_fixed_neg:
  "x < 0 \<Longrightarrow> toNumber x = Num x \<Longrightarrow> toDouble (- x) = Some (- x)"
  by (auto simp add: toNumber_def split: option.splits)

lemma parseInt_showMagnitude:
  assumes x: "0 \<le> x" "x < 1000000000000000000000"
    and exact: "toDouble x = Some x"
  shows "parseInt (showMagnitude x) = Num x"
    and "x \<noteq> 0 \<Longrightarrow> parseInt (CHR ''-'' # showMagnitude x) = Num (- x)"
proof -
  note v = shortestDecimal_roundtrip [OF x exact]
  note d = showDigits_digits [OF v(2)]
  have zero: "showDigits 0 = ''0''"
    by (rule showDigits_zero)
  show "parseInt (showMagnitude x) = Num x"
  proof (cases "x = 0")
    case True
    have "decimalDigits ''0''"
      using showDigits_digits [of 0] by (simp add: zero)
    moreover have "radixValue 10 ''0'' = 0"
      using showDigits_digits [of 0] by (simp add: zero)
    ultimately have "parseInt ''0'' = toNumber 0"
      using parseInt_digits [of "''0''"] by simp
    with True show ?thesis
      by (simp add: showMagnitude_def toNumber_def toDouble_def)
  next
    case False
    with v(3) have "showMagnitude x = showDigits (shortestDecimal x)"
      by (simp add: showMagnitude_def)
    with d v show ?thesis
      by (simp add: parseInt_digits toNumber_def)
  qed
  show "parseInt (CHR ''-'' # showMagnitude x) = Num (- x)" if nz: "x \<noteq> 0"
  proof -
    from nz v(3) have m: "showMagnitude x = showDigits (shortestDecimal x)"
      by (simp add: showMagnitude_def)
    have "shortestDecimal x \<noteq> 0"
    proof
      assume "shortestDecimal x = 0"
      with v(1) nz show False
        by (simp add: toDouble_def)
    qed
    with v(2) have "0 < shortestDecimal x"
      by simp
    with d v(1) show ?thesis
      by (simp add: m parseInt_minus_digits toNumber_def)
  qed
qed

lemma parseInt_numberToString:
  assumes exact: "toNumber x = Num x" and small: "\<bar>x\<bar> < 1000000000000000000000"
  shows "parseInt (numberToString (Num x)) = Num x"
proof (cases "x < 0")
  case False
  with small have x: "0 \<le> x" "x < 1000000000000000000000"
    by simp_all
  from parseInt_showMagnitude(1) [OF x toNumber_fixed_nonneg [OF x(1) exact]] False show ?thesis
    by simp
next
  case True
  with small have x: "0 \<le> - x" "- x < 1000000000000000000000" "- x \<noteq> 0"
    by simp_all
  from parseInt_showMagnitude(2) [OF x(1,2) toNumber_fixed_neg [OF True exact] x(3)] True show ?thesis
    by simp
qed

section \<open>Field resolution without a request\<close>

text \<open>
  Claim C7 says that a reference that is a purely numeric string or a number, and a
  reference \<open>field_<digits>\<close>, resolve to that number without a request. For a Number
  this is not so from \<open>10\<^sup>2\<^sup>1\<close> on: \<open>parseInt\<close> is applied to the string the Number
  converts to, which is then in exponent notation, and reads the digits before the
  first character that is not a digit. The Number \<open>1e21\<close> converts to \<open>1e+21\<close> and
  resolves to 1; no request is issued.
\<close>

theorem getFieldId_number_in_exponent_notation:
  "toNumber 1000000000000000000000 = Num 1000000000000000000000 \<and>
   numberToString (Num 1000000000000000000000) = ''1e+21'' \<and>
   getFieldId offline ''123'' (Number (Num 1000000000000000000000)) ''https://api.baserow.io'' ''test_token'' quiet =
     (Inr (Some (Num 1)), quiet)"
proof -
  have n: "toNumber 1000000000000000000000 = Num 1000000000000000000000"
    by code_simp
  have s: "numberToString (Num 1000000000000000000000) = ''1e+21''"
    by code_simp
  have p: "parseInt ''1e+21'' = Num 1"
    by code_simp
  have g: "getFieldId offline ''123'' (Number (Num 1000000000000000000000)) ''https://api.baserow.io''
             ''test_token'' quiet = (Inr (Some (Num 1)), quiet)"
    by (simp add: getFieldId_def catch_def ret_def s p del: numberToString.simps)
  from n s g show ?thesis
    by simp
qed

text \<open>
  Claim C7 as amended. A field reference that is a non-empty string of decimal digits
  \<open>d\<close>, and the reference \<open>field_d\<close>, are resolved by \<open>getFieldId\<close> to the digits
  parsed as a Number: the Number nearest to the integer the digits denote, which is
  that integer when it is below \<open>2\<^sup>5\<^sup>3\<close>. A reference that is a Number with an integer
  value of magnitude below \<open>10\<^sup>2\<^sup>1\<close> is resolved to that Number. In each case the world
  is left as it was: no request is issued and nothing is logged.
\<close>

theorem getFieldId_numeric_reference:
  "(decimalDigits d \<longrightarrow>
      getFieldId be tableId (Str d) apiUrl apiToken w = (Inr (Some (toNumber (radixValue 10 d))), w) \<and>
      getFieldId be tableId (Str (''field_'' @ d)) apiUrl apiToken w =
        (Inr (Some (toNumber (radixValue 10 d))), w) \<and>
      (radixValue 10 d < 9007199254740992 \<longrightarrow> toNumber (radixValue 10 d) = Num (radixValue 10 d))) \<and>
   (toNumber x = Num x \<and> \<bar>x\<bar> < 1000000000000000000000 \<longrightarrow>
      getFieldId be tableId (Number (Num x)) apiUrl apiToken w = (Inr (Some (Num x)), w))"
proof -
  have bare: "getFieldId be tableId (Str d) apiUrl apiToken w = (Inr (Some (toNumber (radixValue 10 d))), w)"
    if "decimalDigits d"
    using that by (simp add: getFieldId_def catch_def ret_def isNaN_digits parseInt_digits)
  have prefixed:
    "getFieldId be tableId (Str (''field_'' @ d)) apiUrl apiToken w = (Inr (Some (toNumber (radixValue 10 d))), w)"
    if "decimalDigits d"
    using that field_prefix_facts[OF that]
    by (simp add: getFieldId_def catch_def ret_def Let_def isNaN_digits parseInt_digits)
  have exact: "toNumber (radixValue 10 d) = Num (radixValue 10 d)"
    if "decimalDigits d" "radixValue 10 d < 9007199254740992"
  proof -
    from that(1) have "0 \<le> radixValue 10 d"
      by (simp add: radixValue_nonneg)
    with that(2) show ?thesis
      by (simp add: toNumber_small)
  qed
  have number: "getFieldId be tableId (Number (Num x)) apiUrl apiToken w = (Inr (Some (Num x)), w)"
    if "toNumber x = Num x" "\<bar>x\<bar> < 1000000000000000000000"
    using parseInt_numberToString[OF that] by (simp add: getFieldId_def catch_def ret_def)
  from bare prefixed exact number show ?thesis
    by blast
qed

theorem getFieldId_numeric_reference_witness:
  "decimalDigits ''007'' \<and> radixValue 10 ''007'' < 9007199254740992 \<and>
   getFieldId offline ''123'' (Str ''007'') ''https://api.baserow.io'' ''test_token'' quiet =
     (Inr (Some (Num 7)), quiet) \<and>
   getFieldId offline ''123'' (Str ''field_007'') ''https://api.baserow.io'' ''test_token'' quiet =
     (Inr (Some (Num 7)), quiet) \<and>
   toNumber 789 = Num 789 \<and> \<bar>789 :: int\<bar> < 1000000000000000000000 \<and>
   getFieldId offline ''123'' (Number (Num 789)) ''https://api.baserow.io'' ''test_token'' quiet =
     (Inr (Some (Num 789)), quiet) \<and>
   decimalDigits ''9007199254740993'' \<and>
   getFieldId offline ''123'' (Str ''9007199254740993'') ''https://api.baserow.io'' ''test_token'' quiet =
     (Inr (Some (Num 9007199254740992)), quiet)"
proof -
  have d: "decimalDigits ''007''"
    by code_simp
  have v: "radixValue 10 ''007'' = 7"
    by code_simp
  have n: "toNumber 789 = Num 789"
    by code_simp
  have d': "decimalDigits ''9007199254740993''"
    by code_simp
  have v': "toNumber (radixValue 10 ''9007199254740993'') = Num 9007199254740992"
    by code_simp
  note t = getFieldId_numeric_reference[where be = offline and tableId = "''123''"
      and apiUrl = "''https://api.baserow.io''" and apiToken = "''test_token''" and w = quiet]
  from t[of "''007''" 789] d v n
  have 1: "getFieldId offline ''123'' (Str ''007'') ''https://api.baserow.io'' ''test_token'' quiet =
       (Inr (Some (Num 7)), quiet) \<and>
     getFieldId offline ''123'' (Str ''field_007'') ''https://api.baserow.io'' ''test_token'' quiet =
       (Inr (Some (Num 7)), quiet) \<and>
     getFieldId offline ''123'' (Number (Num 789)) ''https://api.baserow.io'' ''test_token'' quiet =
       (Inr (Some (Num 789)), quiet)"
    by simp
  from t[of "''9007199254740993''" 789] d' v'
  have 2: "getFieldId offline ''123'' (Str ''9007199254740993'') ''https://api.baserow.io'' ''test_token'' quiet =
       (Inr (Some (Num 9007199254740992)), quiet)"
    by simp
  from d v n d' 1 2 show ?thesis
    by simp
qed

text \<open>
  Claim C10. Any reference \<open>s\<close> for which \<open>isNaN(s)\<close> is false is answered with
  \<open>parseInt(s)\<close>, whatever the backend holds, and the world is left as it was (no
  request): a field that bears such a name is never looked up. The references \<open>12.5\<close>,
  \<open>1e3\<close>, \<open>42\<close> between blanks and the empty string are of this kind without being
  digit strings; they give 12, 1, 42 and \<open>NaN\<close>.
\<close>

theorem getFieldId_number_like_reference:
  "(\<not> isNaN s \<longrightarrow> getFieldId be tableId (Str s) apiUrl apiToken w = (Inr (Some (parseInt s)), w)) \<and>
   \<not> isNaN ''12.5'' \<and> \<not> allDigits ''12.5'' \<and> parseInt ''12.5'' = Num 12 \<and>
   \<not> isNaN ''1e3'' \<and> \<not> allDigits ''1e3'' \<and> parseInt ''1e3'' = Num 1 \<and>
   \<not> isNaN '' 42 '' \<and> \<not> allDigits '' 42 '' \<and> parseInt '' 42 '' = Num 42 \<and>
   \<not> isNaN [] \<and> \<not> allDigits [] \<and> parseInt [] = NaN"
proof -
  have g: "\<not> isNaN s \<longrightarrow> getFieldId be tableId (Str s) apiUrl apiToken w = (Inr (Some (parseInt s)), w)"
    by (simp add: getFieldId_def catch_def ret_def)
  have e1: "\<not> isNaN ''12.5'' \<and> \<not> allDigits ''12.5'' \<and> parseInt ''12.5'' = Num 12"
    by code_simp
  have e2: "\<not> isNaN ''1e3'' \<and> \<not> allDigits ''1e3'' \<and> parseInt ''1e3'' = Num 1"
    by code_simp
  have e3: "\<not> isNaN '' 42 '' \<and> \<not> allDigits '' 42 '' \<and> parseInt '' 42 '' = Num 42"
    by code_simp
  have e4: "\<not> isNaN [] \<and> \<not> allDigits [] \<and> parseInt [] = NaN"
    by code_simp
  show ?thesis
    using g e1 e2 e3 e4 by blast
qed

theorem getFieldId_number_like_reference_witness:
  "\<not> isNaN ''12.5'' \<and>
   find (\<lambda>f. fld_name f = ''12.5'') [plainField 7 ''12.5'' ''file''] = Some (plainField 7 ''12.5'' ''file'') \<and>
   getFieldId oddNames ''123'' (Str ''12.5'') ''https://api.baserow.io'' ''test_token'' quiet =
     (Inr (Some (Num 12)), quiet)"
proof -
  have n: "\<not> isNaN ''12.5''"
    by code_simp
  have p: "parseInt ''12.5'' = Num 12"
    by code_simp
  have f: "find (\<lambda>f. fld_name f = ''12.5'') [plainField 7 ''12.5'' ''file''] = Some (plainField 7 ''12.5'' ''file'')"
    by (simp add: plainField_def)
  show ?thesis
    using getFieldId_number_like_reference[of "''12.5''" oddNames "''123''" "''https://api.baserow.io''"
        "''test_token''" quiet] n p f
    by simp
qed

section \<open>The shape of an upload result\<close>

lemmas io_defs = bind_def ret_def throw_def catch_def await_def fetch_def warn_def

lemma updateRowStep_shape:
  assumes "updateRowStep be apiUrl apiToken uploaded tableId rowId fieldName w = (Inr res, w')"
  shows "success res \<and> uploaded_file res = uploaded \<and>
         \<not> (updated_row res \<noteq> None \<and> row_update_error res \<noteq> None) \<and>
         (allSupplied tableId rowId fieldName = None \<longrightarrow> updated_row res = None \<and> row_update_error res = None)"
  using assms
  by (auto simp: updateRowStep_def io_defs uploadOnly_def Let_def
      split: option.splits prod.splits sum.splits if_splits fetched.splits)

lemma allSupplied_None: "tableId = None \<or> rowId = None \<or> fieldName = None \<Longrightarrow> allSupplied tableId rowId fieldName = None"
  by (cases tableId; cases rowId; cases fieldName) auto

lemma readUpload_Inr: "readUpload resp s = (Inr d, s') \<Longrightarrow> ok resp \<and> readJson resp = Inr d \<and> s' = s"
  by (auto simp: readUpload_def io_defs split: sum.splits if_splits)

lemma uploadImageUrl_Inr:
  assumes "uploadImageUrl ev be imageUrl filename tableId rowId fieldName w = (Inr res, w')"
  shows "\<exists>apiUrl apiToken resp s1. credentials ev = Some (apiUrl, apiToken) \<and>
     uploadViaUrl be (urlUploadPayload imageUrl filename) = Resolved resp \<and> ok resp \<and>
     readJson resp = Inr (uploaded_file res) \<and>
     updateRowStep be apiUrl apiToken (uploaded_file res) tableId rowId fieldName s1 = (Inr res, w')"
proof -
  from assms obtain apiUrl apiToken where c: "credentials ev = Some (apiUrl, apiToken)"
    by (cases "credentials ev") (auto simp: uploadImageUrl_def throw_def)
  from assms c obtain resp where r: "uploadViaUrl be (urlUploadPayload imageUrl filename) = Resolved resp"
    by (cases "uploadViaUrl be (urlUploadPayload imageUrl filename)")
       (auto simp: uploadImageUrl_def io_defs Let_def)
  let ?s1 = "w\<lparr>requests := requests w @ [(uploadUrlRequest apiUrl apiToken (urlUploadPayload imageUrl filename), None)]\<rparr>"
  from assms c r obtain d s2 where d: "readUpload resp ?s1 = (Inr d, s2)"
    and u: "updateRowStep be apiUrl apiToken d tableId rowId fieldName s2 = (Inr res, w')"
    by (auto simp: uploadImageUrl_def io_defs Let_def split: prod.splits sum.splits)
  from updateRowStep_shape[OF u] have "uploaded_file res = d" by simp
  with readUpload_Inr[OF d] c r u show ?thesis by auto
qed

lemma uploadFile_Inr:
  assumes "uploadFile ev fs be filePath filename tableId rowId fieldName w = (Inr res, w')"
  shows "\<exists>apiUrl apiToken fileBuffer resp s1. credentials ev = Some (apiUrl, apiToken) \<and>
     fs filePath = Some (Inr fileBuffer) \<and>
     uploadFileData be fileBuffer (filenameOr filename (basename filePath)) = Resolved resp \<and> ok resp \<and>
     readJson resp = Inr (uploaded_file res) \<and>
     updateRowStep be apiUrl apiToken (uploaded_file res) tableId rowId fieldName s1 = (Inr res, w')"
proof -
  from assms obtain apiUrl apiToken where c: "credentials ev = Some (apiUrl, apiToken)"
    by (cases "credentials ev") (auto simp: uploadFile_def throw_def)
  from assms c obtain fileBuffer where f: "fs filePath = Some (Inr fileBuffer)"
    by (cases "fs filePath") (auto simp: uploadFile_def io_defs split: sum.splits)
  let ?n = "filenameOr filename (basename filePath)"
  from assms c f obtain resp where r: "uploadFileData be fileBuffer ?n = Resolved resp"
    by (cases "uploadFileData be fileBuffer ?n") (auto simp: uploadFile_def io_defs Let_def)
  let ?s1 = "w\<lparr>requests := requests w @ [(uploadFileRequest apiUrl apiToken fileBuffer ?n, None)]\<rparr>"
  from assms c f r obtain d s2 where d: "readUpload resp ?s1 = (Inr d, s2)"
    and u: "updateRowStep be apiUrl apiToken d tableId rowId fieldName s2 = (Inr res, w')"
    by (auto simp: uploadFile_def io_defs Let_def split: prod.splits sum.splits)
  from updateRowStep_shape[OF u] have "uploaded_file res = d" by simp
  with readUpload_Inr[OF d] c f r u show ?thesis by auto
qed

lemma getFieldId_returns: "\<exists>fieldId w'. getFieldId be tableId fieldRef apiUrl apiToken w = (Inr fieldId, w')"
  by (auto simp: getFieldId_def io_defs Let_def
      split: fetched.splits sum.splits option.splits prod.splits fieldRef.splits)

lemma updateRowStep_unresolved:
  assumes "allSupplied tableId rowId fieldName = Some (t, r, f)"
    and "getFieldId be t (Str f) apiUrl apiToken w = (Inr fieldId, w1)" and "\<not> truthyId fieldId"
  shows "updateRowStep be apiUrl apiToken uploaded tableId rowId fieldName w =
     (Inr \<lparr>success = True, uploaded_file = uploaded, updated_row = None,
           row_update_error = Some (''Failed to resolve field '' @ [dquote] @ f @ [dquote] @ '' in table '' @ t)\<rparr>,
      w1)"
  using assms by (simp add: updateRowStep_def io_defs uploadOnly_def)

lemma updateRowStep_origin:
  assumes run: "updateRowStep be apiUrl apiToken uploaded tableId rowId fieldName w = (Inr res, w')"
  shows "(\<forall>row. updated_row res = Some row \<longrightarrow>
            (\<exists>t r f payload resp. allSupplied tableId rowId fieldName = Some (t, r, f) \<and>
               patchRow be t r payload = Resolved resp \<and> ok resp \<and> readJson resp = Inr row)) \<and>
         (\<forall>msg. row_update_error res = Some msg \<longrightarrow>
            (\<exists>t r f. allSupplied tableId rowId fieldName = Some (t, r, f) \<and>
               (msg = ''Failed to resolve field '' @ [dquote] @ f @ [dquote] @ '' in table '' @ t \<or>
                (\<exists>payload resp. patchRow be t r payload = Resolved resp \<and> \<not> ok resp \<and>
                   msg = ''Failed to update row: '' @ interpolate (int (status resp)) @ '' '' @ statusText resp))))"
proof (cases "allSupplied tableId rowId fieldName")
  case None
  with run have "res = uploadOnly uploaded"
    by (simp add: updateRowStep_def ret_def)
  then show ?thesis
    by (simp add: uploadOnly_def)
next
  case (Some trf)
  obtain t r f where trf: "trf = (t, r, f)"
    by (cases trf)
  from getFieldId_returns obtain fieldId w1 where g: "getFieldId be t (Str f) apiUrl apiToken w = (Inr fieldId, w1)"
    by blast
  show ?thesis
  proof (cases "truthyId fieldId")
    case False
    from updateRowStep_unresolved[OF Some[unfolded trf] g False, of uploaded] run
    have "updated_row res = None"
      "row_update_error res = Some (''Failed to resolve field '' @ [dquote] @ f @ [dquote] @ '' in table '' @ t)"
      by auto
    then show ?thesis
      using Some trf by auto
  next
    case True
    define payload where
      "payload = JObj [(''field_'' @ (case fieldId of None \<Rightarrow> ''null'' | Some n \<Rightarrow> numberToString n), JArr [uploaded])]"
    show ?thesis
    proof (cases "patchRow be t r payload")
      case (Rejected e)
      with run Some trf g True show ?thesis
        by (simp add: updateRowStep_def io_defs Let_def payload_def)
    next
      case (Resolved resp)
      show ?thesis
      proof (cases "ok resp")
        case ok: True
        with run Some trf g True Resolved obtain row where
          "readJson resp = Inr row" "res = (uploadOnly uploaded)\<lparr>updated_row := Some row\<rparr>"
          by (cases "readJson resp") (auto simp: updateRowStep_def io_defs Let_def payload_def)
        then show ?thesis
          using Some trf Resolved ok by (auto simp: uploadOnly_def)
      next
        case False
        with run Some trf g True Resolved have
          "res = (uploadOnly uploaded)\<lparr>row_update_error :=
             Some (''Failed to update row: '' @ interpolate (int (status resp)) @ '' '' @ statusText resp)\<rparr>"
          by (cases "readText resp") (auto simp: updateRowStep_def io_defs Let_def payload_def)
        then have "updated_row res = None"
          "row_update_error res = Some (''Failed to update row: '' @ interpolate (int (status resp)) @ '' '' @ statusText resp)"
          by (simp_all add: uploadOnly_def)
        then show ?thesis
          using Some trf Resolved False by auto
      qed
    qed
  qed
qed

text \<open>
  Claim C1. Whenever \<open>uploadImageUrl\<close> or \<open>uploadFile\<close> returns, the result has
  \<open>success: true\<close>, its \<open>uploaded_file\<close> is the document the upload endpoint answered
  with, \<open>updated_row\<close> and \<open>row_update_error\<close> are never both present, and neither is
  present when one of \<open>tableId\<close>, \<open>rowId\<close>, \<open>fieldName\<close> was not supplied. When
  \<open>updated_row\<close> is present it is the body of a row patch answered with a success
  status; when \<open>row_update_error\<close> is present it reports a field that did not resolve
  or a row patch answered with a non-success status.
\<close>

theorem upload_outcome_shape:
  "(uploadImageUrl ev be imageUrl filename tableId rowId fieldName w = (Inr res, w') \<longrightarrow>
      success res \<and>
      (\<exists>resp. uploadViaUrl be (urlUploadPayload imageUrl filename) = Resolved resp \<and> ok resp \<and>
               readJson resp = Inr (uploaded_file res)) \<and>
      \<not> (updated_row res \<noteq> None \<and> row_update_error res \<noteq> None) \<and>
      (tableId = None \<or> rowId = None \<or> fieldName = None \<longrightarrow>
         updated_row res = None \<and> row_update_error res = None) \<and>
      (\<forall>row. updated_row res = Some row \<longrightarrow>
         (\<exists>t r f payload resp. allSupplied tableId rowId fieldName = Some (t, r, f) \<and>
            patchRow be t r payload = Resolved resp \<and> ok resp \<and> readJson resp = Inr row)) \<and>
      (\<forall>msg. row_update_error res = Some msg \<longrightarrow>
         (\<exists>t r f. allSupplied tableId rowId fieldName = Some (t, r, f) \<and>
            (msg = ''Failed to resolve field '' @ [dquote] @ f @ [dquote] @ '' in table '' @ t \<or>
             (\<exists>payload resp. patchRow be t r payload = Resolved resp \<and> \<not> ok resp \<and>
                msg = ''Failed to update row: '' @ interpolate (int (status resp)) @ '' '' @ statusText resp))))) \<and>
   (uploadFile ev fs be filePath filename tableId rowId fieldName w = (Inr res, w') \<longrightarrow>
      success res \<and>
      (\<exists>fileBuffer resp. fs filePath = Some (Inr fileBuffer) \<and>
               uploadFileData be fileBuffer (filenameOr filename (basename filePath)) = Resolved resp \<and>
               ok resp \<and> readJson resp = Inr (uploaded_file res)) \<and>
      \<not> (updated_row res \<noteq> None \<and> row_update_error res \<noteq> None) \<and>
      (tableId = None \<or> rowId = None \<or> fieldName = None \<longrightarrow>
         updated_row res = None \<and> row_update_error res = None) \<and>
      (\<forall>row. updated_row res = Some row \<longrightarrow>
         (\<exists>t r f payload resp. allSupplied tableId rowId fieldName = Some (t, r, f) \<and>
            patchRow be t r payload = Resolved resp \<and> ok resp \<and> readJson resp = Inr row)) \<and>
      (\<forall>msg. row_update_error res = Some msg \<longrightarrow>
         (\<exists>t r f. allSupplied tableId rowId fieldName = Some (t, r, f) \<and>
            (msg = ''Failed to resolve field '' @ [dquote] @ f @ [dquote] @ '' in table '' @ t \<or>
             (\<exists>payload resp. patchRow be t r payload = Resolved resp \<and> \<not> ok resp \<and>
                msg = ''Failed to update row: '' @ interpolate (int (status resp)) @ '' '' @ statusText resp)))))"
proof (rule conjI; rule impI)
  assume a: "uploadImageUrl ev be imageUrl filename tableId rowId fieldName w = (Inr res, w')"
  from uploadImageUrl_Inr[OF a] obtain apiUrl apiToken resp s1 where
    r: "uploadViaUrl be (urlUploadPayload imageUrl filename) = Resolved resp \<and> ok resp \<and>
        readJson resp = Inr (uploaded_file res)"
    and u: "updateRowStep be apiUrl apiToken (uploaded_file res) tableId rowId fieldName s1 = (Inr res, w')"
    by blast
  from r have ex: "\<exists>resp. uploadViaUrl be (urlUploadPayload imageUrl filename) = Resolved resp \<and> ok resp \<and>
               readJson resp = Inr (uploaded_file res)" ..
  note sh = updateRowStep_shape[OF u] and org = updateRowStep_origin[OF u]
  have 1: "success res"
    using sh by simp
  have 3: "\<not> (updated_row res \<noteq> None \<and> row_update_error res \<noteq> None)"
    using sh by simp
  have 4: "tableId = None \<or> rowId = None \<or> fieldName = None \<longrightarrow>
         updated_row res = None \<and> row_update_error res = None"
    using sh allSupplied_None[of tableId rowId fieldName] by auto
  from 1 ex 3 4 org[THEN conjunct1] org[THEN conjunct2]
  show "success res \<and>
      (\<exists>resp. uploadViaUrl be (urlUploadPayload imageUrl filename) = Resolved resp \<and> ok resp \<and>
               readJson resp = Inr (uploaded_file res)) \<and>
      \<not> (updated_row res \<noteq> None \<and> row_update_error res \<noteq> None) \<and>
      (tableId = None \<or> rowId = None \<or> fieldName = None \<longrightarrow>
         updated_row res = None \<and> row_update_error res = None) \<and>
      (\<forall>row. updated_row res = Some row \<longrightarrow>
         (\<exists>t r f payload resp. allSupplied tableId rowId fieldName = Some (t, r, f) \<and>
            patchRow be t r payload = Resolved resp \<and> ok resp \<and> readJson resp = Inr row)) \<and>
      (\<forall>msg. row_update_error res = Some msg \<longrightarrow>
         (\<exists>t r f. allSupplied tableId rowId fieldName = Some (t, r, f) \<and>
            (msg = ''Failed to resolve field '' @ [dquote] @ f @ [dquote] @ '' in table '' @ t \<or>
             (\<exists>payload resp. patchRow be t r payload = Resolved resp \<and> \<not> ok resp \<and>
                msg = ''Failed to update row: '' @ interpolate (int (status resp)) @ '' '' @ statusText resp))))"
    by (intro conjI)
next
  assume a: "uploadFile ev fs be filePath filename tableId rowId fieldName w = (Inr res, w')"
  from uploadFile_Inr[OF a] obtain apiUrl apiToken fileBuffer resp s1 where
    r: "fs filePath = Some (Inr fileBuffer) \<and>
       uploadFileData be fileBuffer (filenameOr filename (basename filePath)) = Resolved resp \<and> ok resp \<and>
       readJson resp = Inr (uploaded_file res)"
    and u: "updateRowStep be apiUrl apiToken (uploaded_file res) tableId rowId fieldName s1 = (Inr res, w')"
    by blast
  from r have ex: "\<exists>fileBuffer resp. fs filePath = Some (Inr fileBuffer) \<and>
               uploadFileData be fileBuffer (filenameOr filename (basename filePath)) = Resolved resp \<and>
               ok resp \<and> readJson resp = Inr (uploaded_file res)"
    by blast
  note sh = updateRowStep_shape[OF u] and org = updateRowStep_origin[OF u]
  have 1: "success res"
    using sh by simp
  have 3: "\<not> (updated_row res \<noteq> None \<and> row_update_error res \<noteq> None)"
    using sh by simp
  have 4: "tableId = None \<or> rowId = None \<or> fieldName = None \<longrightarrow>
         updated_row res = None \<and> row_update_error res = None"
    using sh allSupplied_None[of tableId rowId fieldName] by auto
  from 1 ex 3 4 org[THEN conjunct1] org[THEN conjunct2]
  show "success res \<and>
      (\<exists>fileBuffer resp. fs filePath = Some (Inr fileBuffer) \<and>
               uploadFileData be fileBuffer (filenameOr filename (basename filePath)) = Resolved resp \<and>
               ok resp \<and> readJson resp = Inr (uploaded_file res)) \<and>
      \<not> (updated_row res \<noteq> None \<and> row_update_error res \<noteq> None) \<and>
      (tableId = None \<or> rowId = None \<or> fieldName = None \<longrightarrow>
         updated_row res = None \<and> row_update_error res = None) \<and>
      (\<forall>row. updated_row res = Some row \<longrightarrow>
         (\<exists>t r f payload resp. allSupplied tableId rowId fieldName = Some (t, r, f) \<and>
            patchRow be t r payload = Resolved resp \<and> ok resp \<and> readJson resp = Inr row)) \<and>
      (\<forall>msg. row_update_error res = Some msg \<longrightarrow>
         (\<exists>t r f. allSupplied tableId rowId fieldName = Some (t, r, f) \<and>
            (msg = ''Failed to resolve field '' @ [dquote] @ f @ [dquote] @ '' in table '' @ t \<or>
             (\<exists>payload resp. patchRow be t r payload = Resolved resp \<and> \<not> ok resp \<and>
                msg = ''Failed to update row: '' @ interpolate (int (status resp)) @ '' '' @ statusText resp))))"
    by (intro conjI)
qed

theorem upload_outcome_shape_witness:
  "fst (uploadImageUrl sampleEnv attachable ''https://example.com/image.jpg'' None (Some ''123'') (Some ''456'')
          (Some ''image_field'') quiet) =
     Inr \<lparr>success = True, uploaded_file = sampleUpload, updated_row = Some (JObj [(''id'', JNum 456)]),
          row_update_error = None\<rparr> \<and>
   fst (uploadFile sampleEnv disk rowMissing ''/tmp/photo.jpg'' None (Some ''123'') (Some ''456'') (Some ''789'')
          quiet) =
     Inr \<lparr>success = True, uploaded_file = sampleUpload, updated_row = None,
          row_update_error = Some ''Failed to update row: 404 Not Found''\<rparr> \<and>
   fst (uploadImageUrl sampleEnv attachable ''https://example.com/image.jpg'' None None None None quiet) =
     Inr \<lparr>success = True, uploaded_file = sampleUpload, updated_row = None, row_update_error = None\<rparr> \<and>
   uploadViaUrl attachable (urlUploadPayload ''https://example.com/image.jpg'' None) = respondOk sampleUpload"
proof -
  let ?a = "uploadImageUrl sampleEnv attachable ''https://example.com/image.jpg'' None (Some ''123'') (Some ''456'')
          (Some ''image_field'') quiet"
  let ?ra = "\<lparr>success = True, uploaded_file = sampleUpload, updated_row = Some (JObj [(''id'', JNum 456)]),
          row_update_error = None\<rparr>"
  let ?b = "uploadFile sampleEnv disk rowMissing ''/tmp/photo.jpg'' None (Some ''123'') (Some ''456'') (Some ''789'')
          quiet"
  let ?rb = "\<lparr>success = True, uploaded_file = sampleUpload, updated_row = None,
          row_update_error = Some ''Failed to update row: 404 Not Found''\<rparr>"
  let ?c = "uploadImageUrl sampleEnv attachable ''https://example.com/image.jpg'' None None None None quiet"
  let ?rc = "\<lparr>success = True, uploaded_file = sampleUpload, updated_row = None, row_update_error = None\<rparr>"
  have a: "fst ?a = Inr ?ra" by code_simp
  have b: "fst ?b = Inr ?rb" by code_simp
  have c: "fst ?c = Inr ?rc" by code_simp
  have ha: "?a = (Inr ?ra, snd ?a)" using a by (simp add: prod_eq_iff)
  have hb: "?b = (Inr ?rb, snd ?b)" using b by (simp add: prod_eq_iff)
  have hc: "?c = (Inr ?rc, snd ?c)" using c by (simp add: prod_eq_iff)
  note t = upload_outcome_shape
  have ua: "\<exists>resp. uploadViaUrl attachable (urlUploadPayload ''https://example.com/image.jpg'' None) = Resolved resp \<and>
        ok resp \<and> readJson resp = Inr (uploaded_file ?ra)"
    using t[THEN conjunct1, rule_format, OF ha] by blast
  have ub: "\<not> (updated_row ?rb \<noteq> None \<and> row_update_error ?rb \<noteq> None)"
    using t[THEN conjunct2, rule_format, OF hb] by blast
  have uc: "updated_row ?rc = None \<and> row_update_error ?rc = None"
    using t[THEN conjunct1, rule_format, OF hc] by blast
  have d: "uploadViaUrl attachable (urlUploadPayload ''https://example.com/image.jpg'' None) = respondOk sampleUpload"
    by (simp add: attachable_def offline_def)
  show ?thesis using a b c d ua ub uc by simp
qed

section \<open>Failures after a successful upload\<close>

text \<open>
  Claim C2 says that once the upload request has succeeded the call never throws. The
  code does throw when the \<open>PATCH\<close> request fails in the transport: the rejection of
  that \<open>fetch\<close> is not handled where it is issued and reaches the function's outer
  \<open>catch\<close>, which rethrows it as \<open>Upload failed: ...\<close>. Here the upload answers with
  the file descriptor, the reference \<open>789\<close> needs no lookup, and the patch request is
  rejected with \<open>fetch failed\<close>.
\<close>

theorem patch_transport_failure_is_thrown:
  "uploadImageUrl sampleEnv patchUnreachable ''https://example.com/image.jpg'' None (Some ''123'') (Some ''456'')
     (Some ''789'') quiet =
   (Inl (Error ''Upload failed: fetch failed''),
    \<lparr>requests =
       [(uploadUrlRequest ''https://api.baserow.io'' ''test_token''
           (JObj [(''url'', JStr ''https://example.com/image.jpg'')]), None),
        (patchRequest ''https://api.baserow.io'' ''test_token'' ''123'' ''456''
           (JObj [(''field_789'', JArr [sampleUpload])]), Some (Error ''fetch failed''))],
     warnings = []\<rparr>)"
  by code_simp

section \<open>The attach phase\<close>

lemma rethrow:
  "catch m (\<lambda>error. throw (h error)) s =
     (case m s of (Inl e, s') \<Rightarrow> (Inl (h e), s') | (Inr x, s') \<Rightarrow> (Inr x, s'))"
  by (simp add: catch_def throw_def split: prod.splits sum.splits)

lemma uploadImageUrl_after_upload:
  assumes "credentials ev = Some (apiUrl, apiToken)"
    and "uploadViaUrl be (urlUploadPayload imageUrl filename) = Resolved up" "ok up" "readJson up = Inr uploaded"
  shows "uploadImageUrl ev be imageUrl filename tableId rowId fieldName w =
     catch (updateRowStep be apiUrl apiToken uploaded tableId rowId fieldName)
       (\<lambda>error. throw (Error (''Upload failed: '' @ message error)))
       (w\<lparr>requests := requests w @ [(uploadUrlRequest apiUrl apiToken (urlUploadPayload imageUrl filename), None)]\<rparr>)"
  using assms by (simp add: uploadImageUrl_def io_defs Let_def readUpload_def)

lemma uploadFile_after_upload:
  assumes "credentials ev = Some (apiUrl, apiToken)" and "fs filePath = Some (Inr fileBuffer)"
    and "uploadFileData be fileBuffer (filenameOr filename (basename filePath)) = Resolved up" "ok up"
      "readJson up = Inr uploaded"
  shows "uploadFile ev fs be filePath filename tableId rowId fieldName w =
     catch (updateRowStep be apiUrl apiToken uploaded tableId rowId fieldName)
       (\<lambda>error. throw (Error (''File upload failed: '' @ message error)))
       (w\<lparr>requests := requests w @
            [(uploadFileRequest apiUrl apiToken fileBuffer (filenameOr filename (basename filePath)), None)]\<rparr>)"
  using assms by (simp add: uploadFile_def io_defs Let_def readUpload_def)

lemma updateRowStep_patches:
  assumes "allSupplied tableId rowId fieldName = Some (t, r, f)"
    and "getFieldId be t (Str f) apiUrl apiToken w = (Inr (Some fieldId), w1)" and "truthyId (Some fieldId)"
  shows "\<exists>outcome. requests (snd (updateRowStep be apiUrl apiToken uploaded tableId rowId fieldName w)) =
     requests w1 @
     [(patchRequest apiUrl apiToken t r (JObj [(''field_'' @ numberToString fieldId, JArr [uploaded])]), outcome)]"
  using assms
  by (auto simp: updateRowStep_def io_defs uploadOnly_def Let_def split: fetched.splits sum.splits)

lemma snd_rethrow: "snd (catch m (\<lambda>error. throw (h error)) s) = snd (m s)"
  by (simp add: rethrow split: prod.splits sum.splits)





text \<open>
  Claim C9. When all three of table, row and field are supplied, the upload has
  succeeded and the reference resolves to a truthy id, the last request of the call is
  the \<open>PATCH\<close> of that row, and its body is the object with the single key \<open>field_\<close>
  followed by the id as a template literal prints it, whose value is the one-element
  array holding the uploaded-file descriptor; the value does not depend on anything
  read from the row.
\<close>

theorem patch_payload_single_field:
  assumes "credentials ev = Some (apiUrl, apiToken)"
    and "allSupplied tableId rowId fieldName = Some (t, r, f)"
  shows
   "(uploadViaUrl be (urlUploadPayload imageUrl filename) = Resolved up \<and> ok up \<and> readJson up = Inr uploaded \<and>
     getFieldId be t (Str f) apiUrl apiToken
       (w\<lparr>requests := requests w @
            [(uploadUrlRequest apiUrl apiToken (urlUploadPayload imageUrl filename), None)]\<rparr>) =
       (Inr (Some fieldId), w1) \<and> truthyId (Some fieldId) \<longrightarrow>
     (\<exists>outcome. requests (snd (uploadImageUrl ev be imageUrl filename tableId rowId fieldName w)) =
        requests w1 @
        [(\<lparr>httpMethod = ''PATCH'',
           url = apiUrl @ ''/api/database/rows/table/'' @ t @ ''/'' @ r @ ''/'',
           headers = [(''Authorization'', ''Token '' @ apiToken), (''Content-Type'', ''application/json'')],
           body = JsonBody (JObj [(''field_'' @ numberToString fieldId, JArr [uploaded])])\<rparr>, outcome)])) \<and>
    (fs filePath = Some (Inr fileBuffer) \<and>
     uploadFileData be fileBuffer (filenameOr filename (basename filePath)) = Resolved up \<and> ok up \<and>
     readJson up = Inr uploaded \<and>
     getFieldId be t (Str f) apiUrl apiToken
       (w\<lparr>requests := requests w @
            [(uploadFileRequest apiUrl apiToken fileBuffer (filenameOr filename (basename filePath)), None)]\<rparr>) =
       (Inr (Some fieldId), w1) \<and> truthyId (Some fieldId) \<longrightarrow>
     (\<exists>outcome. requests (snd (uploadFile ev fs be filePath filename tableId rowId fieldName w)) =
        requests w1 @
        [(\<lparr>httpMethod = ''PATCH'',
           url = apiUrl @ ''/api/database/rows/table/'' @ t @ ''/'' @ r @ ''/'',
           headers = [(''Authorization'', ''Token '' @ apiToken), (''Content-Type'', ''application/json'')],
           body = JsonBody (JObj [(''field_'' @ numberToString fieldId, JArr [uploaded])])\<rparr>, outcome)]))"
proof (rule conjI; rule impI)
  assume h: "uploadViaUrl be (urlUploadPayload imageUrl filename) = Resolved up \<and> ok up \<and> readJson up = Inr uploaded \<and>
     getFieldId be t (Str f) apiUrl apiToken
       (w\<lparr>requests := requests w @
            [(uploadUrlRequest apiUrl apiToken (urlUploadPayload imageUrl filename), None)]\<rparr>) =
       (Inr (Some fieldId), w1) \<and> truthyId (Some fieldId)"
  then have u: "uploadViaUrl be (urlUploadPayload imageUrl filename) = Resolved up" "ok up" "readJson up = Inr uploaded"
    and g: "getFieldId be t (Str f) apiUrl apiToken
       (w\<lparr>requests := requests w @
            [(uploadUrlRequest apiUrl apiToken (urlUploadPayload imageUrl filename), None)]\<rparr>) =
       (Inr (Some fieldId), w1)" and n: "truthyId (Some fieldId)"
    by simp_all
  show "\<exists>outcome. requests (snd (uploadImageUrl ev be imageUrl filename tableId rowId fieldName w)) =
        requests w1 @
        [(\<lparr>httpMethod = ''PATCH'',
           url = apiUrl @ ''/api/database/rows/table/'' @ t @ ''/'' @ r @ ''/'',
           headers = [(''Authorization'', ''Token '' @ apiToken), (''Content-Type'', ''application/json'')],
           body = JsonBody (JObj [(''field_'' @ numberToString fieldId, JArr [uploaded])])\<rparr>, outcome)]"
    unfolding uploadImageUrl_after_upload[OF assms(1) u] snd_rethrow
    using updateRowStep_patches[OF assms(2) g n] by (simp add: patchRequest_def)
next
  assume h: "fs filePath = Some (Inr fileBuffer) \<and>
     uploadFileData be fileBuffer (filenameOr filename (basename filePath)) = Resolved up \<and> ok up \<and>
     readJson up = Inr uploaded \<and>
     getFieldId be t (Str f) apiUrl apiToken
       (w\<lparr>requests := requests w @
            [(uploadFileRequest apiUrl apiToken fileBuffer (filenameOr filename (basename filePath)), None)]\<rparr>) =
       (Inr (Some fieldId), w1) \<and> truthyId (Some fieldId)"
  then have u: "fs filePath = Some (Inr fileBuffer)"
      "uploadFileData be fileBuffer (filenameOr filename (basename filePath)) = Resolved up" "ok up"
      "readJson up = Inr uploaded"
    and g: "getFieldId be t (Str f) apiUrl apiToken
       (w\<lparr>requests := requests w @
            [(uploadFileRequest apiUrl apiToken fileBuffer (filenameOr filename (basename filePath)), None)]\<rparr>) =
       (Inr (Some fieldId), w1)" and n: "truthyId (Some fieldId)"
    by simp_all
  show "\<exists>outcome. requests (snd (uploadFile ev fs be filePath filename tableId rowId fieldName w)) =
        requests w1 @
        [(\<lparr>httpMethod = ''PATCH'',
           url = apiUrl @ ''/api/database/rows/table/'' @ t @ ''/'' @ r @ ''/'',
           headers = [(''Authorization'', ''Token '' @ apiToken), (''Content-Type'', ''application/json'')],
           body = JsonBody (JObj [(''field_'' @ numberToString fieldId, JArr [uploaded])])\<rparr>, outcome)]"
    unfolding uploadFile_after_upload[where fs = fs and filePath = filePath, OF assms(1) u] snd_rethrow
    using updateRowStep_patches[OF assms(2) g n] by (simp add: patchRequest_def)
qed


theorem patch_payload_single_field_witness:
  "credentials sampleEnv = Some (''https://api.baserow.io'', ''test_token'') \<and>
   allSupplied (Some ''123'') (Some ''456'') (Some ''image_field'') = Some (''123'', ''456'', ''image_field'') \<and>
   uploadViaUrl attachable (urlUploadPayload ''https://example.com/image.jpg'' None) = respondOk sampleUpload \<and>
   fst (getFieldId attachable ''123'' (Str ''image_field'') ''https://api.baserow.io'' ''test_token''
          (quiet\<lparr>requests := requests quiet @
             [(uploadUrlRequest ''https://api.baserow.io'' ''test_token''
                 (urlUploadPayload ''https://example.com/image.jpg'' None), None)]\<rparr>)) = Inr (Some (Num 789)) \<and>
   truthyId (Some (Num 789)) \<and>
   (\<exists>outcome.
      last (requests (snd (uploadImageUrl sampleEnv attachable ''https://example.com/image.jpg'' None
                             (Some ''123'') (Some ''456'') (Some ''image_field'') quiet))) =
        (\<lparr>httpMethod = ''PATCH'',
          url = ''https://api.baserow.io/api/database/rows/table/123/456/'',
          headers = [(''Authorization'', ''Token test_token''), (''Content-Type'', ''application/json'')],
          body = JsonBody (JObj [(''field_789'', JArr [sampleUpload])])\<rparr>, outcome)) \<and>
   allSupplied (Some ''123'') (Some ''456'') (Some ''1000000000000000000000'') =
     Some (''123'', ''456'', ''1000000000000000000000'') \<and>
   fst (getFieldId attachable ''123'' (Str ''1000000000000000000000'') ''https://api.baserow.io'' ''test_token''
          (quiet\<lparr>requests := requests quiet @
             [(uploadUrlRequest ''https://api.baserow.io'' ''test_token''
                 (urlUploadPayload ''https://example.com/image.jpg'' None), None)]\<rparr>)) =
     Inr (Some (Num 1000000000000000000000)) \<and>
   truthyId (Some (Num 1000000000000000000000)) \<and>
   (\<exists>outcome.
      last (requests (snd (uploadImageUrl sampleEnv attachable ''https://example.com/image.jpg'' None
                             (Some ''123'') (Some ''456'') (Some ''1000000000000000000000'') quiet))) =
        (\<lparr>httpMethod = ''PATCH'',
          url = ''https://api.baserow.io/api/database/rows/table/123/456/'',
          headers = [(''Authorization'', ''Token test_token''), (''Content-Type'', ''application/json'')],
          body = JsonBody (JObj [(''field_1e+21'', JArr [sampleUpload])])\<rparr>, outcome))"
proof -
  let ?up = "\<lparr>ok = True, status = 200, statusText = ''OK'', readText = Inr [], readJson = Inr sampleUpload\<rparr>"
  let ?w = "quiet\<lparr>requests := requests quiet @
             [(uploadUrlRequest ''https://api.baserow.io'' ''test_token''
                 (urlUploadPayload ''https://example.com/image.jpg'' None), None)]\<rparr>"
  let ?g = "getFieldId attachable ''123'' (Str ''image_field'') ''https://api.baserow.io'' ''test_token'' ?w"
  let ?h = "getFieldId attachable ''123'' (Str ''1000000000000000000000'') ''https://api.baserow.io''
              ''test_token'' ?w"
  have c: "credentials sampleEnv = Some (''https://api.baserow.io'', ''test_token'')"
    by (simp add: sampleEnv_def)
  have a: "allSupplied (Some ''123'') (Some ''456'') (Some ''image_field'') = Some (''123'', ''456'', ''image_field'')"
    by simp
  have a': "allSupplied (Some ''123'') (Some ''456'') (Some ''1000000000000000000000'') =
     Some (''123'', ''456'', ''1000000000000000000000'')"
    by simp
  have u: "uploadViaUrl attachable (urlUploadPayload ''https://example.com/image.jpg'' None) = Resolved ?up"
    by (simp add: attachable_def offline_def respondOk_def)
  have g: "fst ?g = Inr (Some (Num 789))"
    by code_simp
  then have g': "?g = (Inr (Some (Num 789)), snd ?g)"
    by (simp add: prod_eq_iff)
  have h: "fst ?h = Inr (Some (Num 1000000000000000000000))"
    by code_simp
  then have h': "?h = (Inr (Some (Num 1000000000000000000000)), snd ?h)"
    by (simp add: prod_eq_iff)
  have k: "numberToString (Num 789) = ''789''"
    by code_simp
  have k': "numberToString (Num 1000000000000000000000) = ''1e+21''"
    by code_simp
  from patch_payload_single_field[OF c a, THEN conjunct1, rule_format, of attachable
      "''https://example.com/image.jpg''" None ?up sampleUpload quiet "Num 789" "snd ?g"] u g'
  obtain outcome where
    "requests (snd (uploadImageUrl sampleEnv attachable ''https://example.com/image.jpg'' None
                      (Some ''123'') (Some ''456'') (Some ''image_field'') quiet)) =
       requests (snd ?g) @
       [(\<lparr>httpMethod = ''PATCH'',
          url = ''https://api.baserow.io'' @ ''/api/database/rows/table/'' @ ''123'' @ ''/'' @ ''456'' @ ''/'',
          headers = [(''Authorization'', ''Token '' @ ''test_token''), (''Content-Type'', ''application/json'')],
          body = JsonBody (JObj [(''field_'' @ numberToString (Num 789), JArr [sampleUpload])])\<rparr>, outcome)]"
    by auto
  then have 1: "\<exists>outcome. last (requests (snd (uploadImageUrl sampleEnv attachable ''https://example.com/image.jpg'' None
                      (Some ''123'') (Some ''456'') (Some ''image_field'') quiet))) =
       (\<lparr>httpMethod = ''PATCH'',
          url = ''https://api.baserow.io/api/database/rows/table/123/456/'',
          headers = [(''Authorization'', ''Token test_token''), (''Content-Type'', ''application/json'')],
          body = JsonBody (JObj [(''field_789'', JArr [sampleUpload])])\<rparr>, outcome)"
    by (simp add: k del: numberToString.simps)
  from patch_payload_single_field[OF c a', THEN conjunct1, rule_format, of attachable
      "''https://example.com/image.jpg''" None ?up sampleUpload quiet "Num 1000000000000000000000" "snd ?h"] u h'
  obtain outcome where
    "requests (snd (uploadImageUrl sampleEnv attachable ''https://example.com/image.jpg'' None
                      (Some ''123'') (Some ''456'') (Some ''1000000000000000000000'') quiet)) =
       requests (snd ?h) @
       [(\<lparr>httpMethod = ''PATCH'',
          url = ''https://api.baserow.io'' @ ''/api/database/rows/table/'' @ ''123'' @ ''/'' @ ''456'' @ ''/'',
          headers = [(''Authorization'', ''Token '' @ ''test_token''), (''Content-Type'', ''application/json'')],
          body = JsonBody (JObj [(''field_'' @ numberToString (Num 1000000000000000000000),
                                  JArr [sampleUpload])])\<rparr>, outcome)]"
    by auto
  then have 2: "\<exists>outcome. last (requests (snd (uploadImageUrl sampleEnv attachable ''https://example.com/image.jpg'' None
                      (Some ''123'') (Some ''456'') (Some ''1000000000000000000000'') quiet))) =
       (\<lparr>httpMethod = ''PATCH'',
          url = ''https://api.baserow.io/api/database/rows/table/123/456/'',
          headers = [(''Authorization'', ''Token test_token''), (''Content-Type'', ''application/json'')],
          body = JsonBody (JObj [(''field_1e+21'', JArr [sampleUpload])])\<rparr>, outcome)"
    by (simp add: k' del: numberToString.simps)
  from c a a' u g h 1 2 show ?thesis
    by (simp add: respondOk_def)
qed

section \<open>The walker builds the report the specification describes\<close>

lemma tableStep_Inr:
  assumes "tableStep be apiUrl apiToken includeRows maxRows tbl tables s = (Inr r, s')"
  shows "r = tables @ [expectedTable be includeRows maxRows tbl] \<and>
         totalApplications (counters s') = totalApplications (counters s) \<and>
         totalWorkspaces (counters s') = totalWorkspaces (counters s)"
  using assms
  by (auto simp: tableStep_def io_defs updateSummary_def expectedTable_def delivered_def deliveredList_def Let_def
      split: fetched.splits sum.splits if_splits prod.splits)

lemma forOf_Inr:
  assumes step: "\<And>x acc s r s'. f x acc s = (Inr r, s') \<Longrightarrow> r = acc @ g x \<and> c s' = c s + d x"
    and run: "forOf xs f acc s = (Inr r, s')"
  shows "r = acc @ concat (map g xs) \<and> (c s' :: nat) = c s + sum_list (map d xs)"
  using run
proof (induction xs arbitrary: acc s)
  case Nil
  then show ?case by (simp add: ret_def)
next
  case (Cons x xs)
  from Cons.prems obtain acc1 s1 where a: "f x acc s = (Inr acc1, s1)" and b: "forOf xs f acc1 s1 = (Inr r, s')"
    by (auto simp: bind_def split: prod.splits sum.splits)
  from step[OF a] Cons.IH[OF b] show ?case by simp
qed

lemma applicationStep_Inr:
  assumes "applicationStep be apiUrl apiToken includeRows maxRows app applications s = (Inr r, s')"
  shows "r = applications @ (if app_type app = ''database'' then [expectedApplication be includeRows maxRows app] else []) \<and>
         totalApplications (counters s') = totalApplications (counters s) \<and>
         totalWorkspaces (counters s') = totalWorkspaces (counters s)"
proof (cases "app_type app = ''database''")
  case False
  then show ?thesis using assms by (simp add: applicationStep_def ret_def)
next
  case True
  show ?thesis
  proof (cases "listTables be (app_id app)")
    case (Rejected e)
    then show ?thesis using assms True by (simp add: applicationStep_def io_defs Let_def)
  next
    case (Resolved resp)
    show ?thesis
    proof (cases "ok resp")
      case False
      then show ?thesis using assms True Resolved
        by (auto simp: applicationStep_def io_defs Let_def expectedApplication_def deliveredList_def delivered_def)
    next
      case ok: True
      show ?thesis
      proof (cases "readJson resp")
        case (Inl e)
        then show ?thesis using assms True Resolved ok by (simp add: applicationStep_def io_defs Let_def)
      next
        case (Inr tablesData)
        let ?s1 = "s\<lparr>requests := requests s @ [(getRequest (apiUrl @ ''/api/database/tables/database/'' @ interpolate (app_id app) @ ''/'') apiToken, None)]\<rparr>"
        let ?s2 = "?s1\<lparr>counters := (counters ?s1)\<lparr>totalTables := totalTables (counters ?s1) + length tablesData\<rparr>\<rparr>"
        from assms True Resolved ok Inr obtain tables where
          loop: "forOf tablesData (tableStep be apiUrl apiToken includeRows maxRows) [] ?s2 = (Inr tables, s')"
          and r: "r = applications @ [\<lparr>ai_id = app_id app, ai_name = app_name app, ai_type = app_type app, ai_tables = tables\<rparr>]"
          by (auto simp: applicationStep_def io_defs updateSummary_def Let_def split: prod.splits sum.splits)
        have "tables = [] @ concat (map (\<lambda>t. [expectedTable be includeRows maxRows t]) tablesData) \<and>
              totalApplications (counters s') = totalApplications (counters ?s2) + sum_list (map (\<lambda>_. 0) tablesData)"
          by (rule forOf_Inr[OF _ loop]) (use tableStep_Inr in auto)
        moreover have "tables = [] @ concat (map (\<lambda>t. [expectedTable be includeRows maxRows t]) tablesData) \<and>
              totalWorkspaces (counters s') = totalWorkspaces (counters ?s2) + sum_list (map (\<lambda>_. 0) tablesData)"
          by (rule forOf_Inr[OF _ loop]) (use tableStep_Inr in auto)
        ultimately show ?thesis using r True Resolved ok Inr
          by (simp add: expectedApplication_def deliveredList_def delivered_def concat_map_singleton)
      qed
    qed
  qed
qed


lemma workspaceStep_Inr:
  assumes "workspaceStep be apiUrl apiToken includeRows maxRows ws finished s = (Inr r, s')"
  shows "r = finished @ [expectedWorkspace be includeRows maxRows ws] \<and>
         totalApplications (counters s') =
           totalApplications (counters s) + length (deliveredList (listApplications be (ws_id ws))) \<and>
         totalWorkspaces (counters s') = totalWorkspaces (counters s)"
proof (cases "listApplications be (ws_id ws)")
  case (Rejected e)
  then show ?thesis using assms by (simp add: workspaceStep_def io_defs Let_def)
next
  case (Resolved resp)
  show ?thesis
  proof (cases "ok resp")
    case False
    then show ?thesis using assms Resolved
      by (auto simp: workspaceStep_def io_defs Let_def expectedWorkspace_def deliveredList_def delivered_def)
  next
    case ok: True
    show ?thesis
    proof (cases "readJson resp")
      case (Inl e)
      then show ?thesis using assms Resolved ok by (simp add: workspaceStep_def io_defs Let_def)
    next
      case (Inr appsData)
      let ?s1 = "s\<lparr>requests := requests s @ [(getRequest (apiUrl @ ''/api/applications/workspace/'' @ interpolate (ws_id ws) @ ''/'') apiToken, None)]\<rparr>"
      let ?s2 = "?s1\<lparr>counters := (counters ?s1)\<lparr>totalApplications := totalApplications (counters ?s1) + length appsData\<rparr>\<rparr>"
      from assms Resolved ok Inr obtain apps where
        loop: "forOf appsData (applicationStep be apiUrl apiToken includeRows maxRows) [] ?s2 = (Inr apps, s')"
        and r: "r = finished @ [\<lparr>wi_id = ws_id ws, wi_name = ws_name ws, wi_applications = apps\<rparr>]"
        by (auto simp: workspaceStep_def io_defs updateSummary_def Let_def split: prod.splits sum.splits)
      have "apps = [] @ concat (map (\<lambda>a. if app_type a = ''database'' then [expectedApplication be includeRows maxRows a] else []) appsData) \<and>
            totalApplications (counters s') = totalApplications (counters ?s2) + sum_list (map (\<lambda>_. 0) appsData)"
        by (rule forOf_Inr[OF _ loop]) (use applicationStep_Inr in auto)
      moreover have "apps = [] @ concat (map (\<lambda>a. if app_type a = ''database'' then [expectedApplication be includeRows maxRows a] else []) appsData) \<and>
            totalWorkspaces (counters s') = totalWorkspaces (counters ?s2) + sum_list (map (\<lambda>_. 0) appsData)"
        by (rule forOf_Inr[OF _ loop]) (use applicationStep_Inr in auto)
      moreover have "concat (map (\<lambda>a. if P a then [h a] else []) xs) = map h (filter P xs)" for P h and xs :: "application list"
        by (induction xs) auto
      ultimately show ?thesis using r Resolved ok Inr
        by (simp add: expectedWorkspace_def deliveredList_def delivered_def)
    qed
  qed
qed

lemma readBaserowStructure_Inr:
  assumes "readBaserowStructure ev be includeRows maxRows s = (Inr res, s')"
  shows "\<exists>resp wd. listWorkspaces be = Resolved resp \<and> ok resp \<and> readJson resp = Inr wd \<and>
           read_success res \<and>
           workspaces (read_structure res) = map (expectedWorkspace be includeRows maxRows) (resultsOrEmpty wd) \<and>
           totalWorkspaces (summary (read_structure res)) = length (resultsOrEmpty wd) \<and>
           totalApplications (summary (read_structure res)) =
             sum_list (map (\<lambda>ws. length (deliveredList (listApplications be (ws_id ws)))) (resultsOrEmpty wd))"
proof -
  from assms obtain apiUrl apiToken where c: "credentials ev = Some (apiUrl, apiToken)"
    by (cases "credentials ev") (auto simp: readBaserowStructure_def throw_def)
  from assms c obtain resp where r: "listWorkspaces be = Resolved resp"
    by (cases "listWorkspaces be") (auto simp: readBaserowStructure_def readStructureBody_def io_defs updateSummary_def)
  from assms c r have ok: "ok resp"
    by (auto simp: readBaserowStructure_def readStructureBody_def io_defs updateSummary_def split: if_splits)
  from assms c r ok obtain wd where j: "readJson resp = Inr wd"
    by (cases "readJson resp") (auto simp: readBaserowStructure_def readStructureBody_def io_defs updateSummary_def)
  let ?z = "\<lparr>totalWorkspaces = 0, totalApplications = 0, totalTables = 0, totalFields = 0\<rparr>"
  let ?s1 = "s\<lparr>counters := ?z, requests := requests s @ [(getRequest (apiUrl @ ''/api/workspaces/'') apiToken, None)]\<rparr>"
  let ?s2 = "?s1\<lparr>counters := (counters ?s1)\<lparr>totalWorkspaces := length (resultsOrEmpty wd)\<rparr>\<rparr>"
  from assms c r ok j obtain finished where
    loop: "forOf (resultsOrEmpty wd) (workspaceStep be apiUrl apiToken includeRows maxRows) [] ?s2 = (Inr finished, s')"
    and res: "res = \<lparr>read_success = True, read_structure = \<lparr>workspaces = finished, summary = counters s'\<rparr>,
                    read_message = foundMessage (counters s')\<rparr>"
    by (auto simp: readBaserowStructure_def readStructureBody_def io_defs updateSummary_def getSummary_def Let_def resultsOrEmpty_def
        split: prod.splits sum.splits)
  have a: "finished = [] @ concat (map (\<lambda>ws. [expectedWorkspace be includeRows maxRows ws]) (resultsOrEmpty wd)) \<and>
        totalApplications (counters s') = totalApplications (counters ?s2) +
          sum_list (map (\<lambda>ws. length (deliveredList (listApplications be (ws_id ws)))) (resultsOrEmpty wd))"
    by (rule forOf_Inr[OF _ loop]) (use workspaceStep_Inr in auto)
  have b: "finished = [] @ concat (map (\<lambda>ws. [expectedWorkspace be includeRows maxRows ws]) (resultsOrEmpty wd)) \<and>
        totalWorkspaces (counters s') = totalWorkspaces (counters ?s2) + sum_list (map (\<lambda>_. 0) (resultsOrEmpty wd))"
    by (rule forOf_Inr[OF _ loop]) (use workspaceStep_Inr in auto)
  show ?thesis using a b r ok j res by simp
qed


section \<open>A rejected fetch ends the walk\<close>

lemma failsOnReject_ret: "failsOnReject (ret x)"
  by (simp add: failsOnReject_def ret_def)

lemma failsOnReject_throw: "failsOnReject (throw e)"
  by (simp add: failsOnReject_def throw_def)

lemma failsOnReject_await: "failsOnReject (await r)"
  by (cases r) (simp_all add: await_def failsOnReject_ret failsOnReject_throw)

lemma failsOnReject_warn: "failsOnReject (warn l)"
  by (simp add: failsOnReject_def warn_def)

lemma failsOnReject_updateSummary: "failsOnReject (updateSummary f)"
  by (simp add: failsOnReject_def updateSummary_def)

lemma failsOnReject_getSummary: "failsOnReject getSummary"
  by (simp add: failsOnReject_def getSummary_def)

lemma failsOnReject_fetch: "failsOnReject (fetch q res)"
  by (cases res) (simp_all add: failsOnReject_def fetch_def)

lemma failsOnReject_bind:
  assumes m: "failsOnReject m" and f: "\<And>x. failsOnReject (f x)"
  shows "failsOnReject (bind m f)"
  unfolding failsOnReject_def
proof
  fix s
  obtain r1 s1 where ms: "m s = (r1, s1)" by (cases "m s")
  from m obtain new1 where n1: "requests s1 = requests s @ new1"
    and e1: "\<And>q e. (q, Some e) \<in> set new1 \<Longrightarrow> r1 = Inl e"
    unfolding failsOnReject_def using ms by (metis fst_conv snd_conv)
  show "\<exists>new. requests (snd (bind m f s)) = requests s @ new \<and>
              (\<forall>q e. (q, Some e) \<in> set new \<longrightarrow> fst (bind m f s) = Inl e)"
  proof (cases r1)
    case (Inl e)
    then have "bind m f s = (Inl e, s1)" using ms by (simp add: bind_def)
    then show ?thesis using n1 e1 Inl by auto
  next
    case (Inr x)
    then have b: "bind m f s = f x s1" using ms by (simp add: bind_def)
    from f[of x] obtain new2 where n2: "requests (snd (f x s1)) = requests s1 @ new2"
      and e2: "\<And>q e. (q, Some e) \<in> set new2 \<Longrightarrow> fst (f x s1) = Inl e"
      unfolding failsOnReject_def by blast
    have "requests (snd (bind m f s)) = requests s @ (new1 @ new2)" using b n1 n2 by simp
    moreover have "fst (bind m f s) = Inl e" if "(q, Some e) \<in> set (new1 @ new2)" for q e
    proof -
      from that e1 Inr have "(q, Some e) \<in> set new2" by auto
      then show ?thesis using e2 b by simp
    qed
    ultimately show ?thesis by blast
  qed
qed

lemma failsOnReject_forOf:
  assumes "\<And>x acc. failsOnReject (f x acc)"
  shows "failsOnReject (forOf xs f acc)"
  by (induction xs arbitrary: acc) (simp_all add: failsOnReject_ret failsOnReject_bind assms)

lemmas failsOnReject_intros =
  failsOnReject_ret failsOnReject_throw failsOnReject_await failsOnReject_warn failsOnReject_updateSummary
  failsOnReject_getSummary failsOnReject_fetch failsOnReject_bind failsOnReject_forOf

lemma failsOnReject_tableStep: "failsOnReject (tableStep be apiUrl apiToken includeRows maxRows tbl tables)"
  unfolding tableStep_def Let_def
  by (intro failsOnReject_intros | simp add: failsOnReject_intros)+

lemma failsOnReject_applicationStep:
  "failsOnReject (applicationStep be apiUrl apiToken includeRows maxRows app applications)"
  unfolding applicationStep_def Let_def
  by (intro failsOnReject_intros failsOnReject_tableStep | simp add: failsOnReject_intros failsOnReject_tableStep)+

lemma failsOnReject_workspaceStep:
  "failsOnReject (workspaceStep be apiUrl apiToken includeRows maxRows ws finished)"
  unfolding workspaceStep_def Let_def
  by (intro failsOnReject_intros failsOnReject_applicationStep
      | simp add: failsOnReject_intros failsOnReject_applicationStep)+


lemma readBaserowStructure_rejection:
  "\<exists>new. requests (snd (readBaserowStructure ev be includeRows maxRows s)) = requests s @ new \<and>
     (\<forall>q e. (q, Some e) \<in> set new \<longrightarrow>
        fst (readBaserowStructure ev be includeRows maxRows s) =
          Inl (Error (''Failed to read Baserow structure: '' @ message e)))"
proof (cases "credentials ev")
  case None
  then show ?thesis by (simp add: readBaserowStructure_def throw_def)
next
  case (Some c)
  obtain apiUrl apiToken where c: "c = (apiUrl, apiToken)" by (cases c)
  define body where "body = readStructureBody be apiUrl apiToken includeRows maxRows"
  have fr: "failsOnReject body"
    unfolding body_def readStructureBody_def Let_def
    by (intro failsOnReject_intros failsOnReject_workspaceStep
        | simp add: failsOnReject_intros failsOnReject_workspaceStep)+
  have R: "readBaserowStructure ev be includeRows maxRows =
      catch body (\<lambda>error. throw (Error (''Failed to read Baserow structure: '' @ message error)))"
    using Some c by (simp add: readBaserowStructure_def body_def)
  from fr obtain new where n: "requests (snd (body s)) = requests s @ new"
    and e: "\<And>q e. (q, Some e) \<in> set new \<Longrightarrow> fst (body s) = Inl e"
    unfolding failsOnReject_def by blast
  have "fst (catch body (\<lambda>error. throw (Error (''Failed to read Baserow structure: '' @ message error))) s) =
          Inl (Error (''Failed to read Baserow structure: '' @ message e))"
    if "fst (body s) = Inl e" for e
    using that by (cases "body s") (simp add: rethrow)
  then show ?thesis unfolding R snd_rethrow using n e by blast
qed


section \<open>The walker returns when every fetch answers\<close>

lemma answers_cases:
  assumes "answers res"
  obtains r where "res = Resolved r" "\<not> ok r" | r x where "res = Resolved r" "ok r" "readJson r = Inr x"
  using assms by (cases res) (auto simp: answers_def split: sum.splits)

lemma forOf_returns:
  assumes "\<And>x acc s. \<exists>r s'. f x acc s = (Inr r, s')"
  shows "\<exists>r s'. forOf xs f acc s = (Inr r, s')"
proof (induction xs arbitrary: acc s)
  case Nil
  show ?case by (simp add: ret_def)
next
  case (Cons x xs)
  from assms[of x acc s] obtain acc1 s1 where a: "f x acc s = (Inr acc1, s1)" by blast
  from Cons.IH[of acc1 s1] a show ?case by (simp add: bind_def)
qed

lemma tableStep_returns:
  assumes "\<forall>t. answers (listFields be t)" and "includeRows \<longrightarrow> (\<forall>i. answers (listRows be i maxRows))"
  shows "\<exists>r s'. tableStep be apiUrl apiToken includeRows maxRows tbl tables s = (Inr r, s')"
proof -
  from assms(1) have f: "answers (listFields be (interpolate (tbl_id tbl)))"
    by simp
  show ?thesis
  proof (cases includeRows)
    case True
    with assms(2) have r: "answers (listRows be (tbl_id tbl) maxRows)"
      by simp
    show ?thesis
      using f r
      by (elim answers_cases) (simp_all add: tableStep_def io_defs updateSummary_def Let_def)
  next
    case False
    then show ?thesis
      using f
      by (elim answers_cases) (simp_all add: tableStep_def io_defs updateSummary_def Let_def)
  qed
qed

lemma applicationStep_returns:
  assumes "\<forall>i. answers (listTables be i)" and "\<forall>t. answers (listFields be t)"
    and "includeRows \<longrightarrow> (\<forall>i. answers (listRows be i maxRows))"
  shows "\<exists>r s'. applicationStep be apiUrl apiToken includeRows maxRows app applications s = (Inr r, s')"
proof (cases "app_type app = ''database''")
  case False
  then show ?thesis by (simp add: applicationStep_def ret_def)
next
  case True
  from assms(1) have "answers (listTables be (app_id app))" by simp
  then show ?thesis
  proof (cases rule: answers_cases)
    case (1 r)
    then show ?thesis using True by (simp add: applicationStep_def io_defs Let_def)
  next
    case (2 r tablesData)
    let ?s1 = "s\<lparr>requests := requests s @ [(getRequest (apiUrl @ ''/api/database/tables/database/'' @ interpolate (app_id app) @ ''/'') apiToken, None)]\<rparr>"
    let ?s2 = "?s1\<lparr>counters := (counters ?s1)\<lparr>totalTables := totalTables (counters ?s1) + length tablesData\<rparr>\<rparr>"
    from forOf_returns[of "tableStep be apiUrl apiToken includeRows maxRows" tablesData "[]" ?s2]
      tableStep_returns[OF assms(2,3)]
    obtain tables s' where "forOf tablesData (tableStep be apiUrl apiToken includeRows maxRows) [] ?s2 = (Inr tables, s')"
      by blast
    then show ?thesis using True 2 by (simp add: applicationStep_def io_defs updateSummary_def Let_def)
  qed
qed

lemma workspaceStep_returns:
  assumes "\<forall>i. answers (listApplications be i)" and "\<forall>i. answers (listTables be i)"
    and "\<forall>t. answers (listFields be t)" and "includeRows \<longrightarrow> (\<forall>i. answers (listRows be i maxRows))"
  shows "\<exists>r s'. workspaceStep be apiUrl apiToken includeRows maxRows ws finished s = (Inr r, s')"
proof -
  from assms(1) have "answers (listApplications be (ws_id ws))" by simp
  then show ?thesis
  proof (cases rule: answers_cases)
    case (1 r)
    then show ?thesis by (simp add: workspaceStep_def io_defs Let_def)
  next
    case (2 r appsData)
    let ?s1 = "s\<lparr>requests := requests s @ [(getRequest (apiUrl @ ''/api/applications/workspace/'' @ interpolate (ws_id ws) @ ''/'') apiToken, None)]\<rparr>"
    let ?s2 = "?s1\<lparr>counters := (counters ?s1)\<lparr>totalApplications := totalApplications (counters ?s1) + length appsData\<rparr>\<rparr>"
    from forOf_returns[of "applicationStep be apiUrl apiToken includeRows maxRows" appsData "[]" ?s2]
      applicationStep_returns[OF assms(2,3,4)]
    obtain apps s' where "forOf appsData (applicationStep be apiUrl apiToken includeRows maxRows) [] ?s2 = (Inr apps, s')"
      by blast
    then show ?thesis using 2 by (simp add: workspaceStep_def io_defs updateSummary_def Let_def)
  qed
qed

lemma readBaserowStructure_returns:
  assumes "credentials ev = Some (apiUrl, apiToken)"
    and "listWorkspaces be = Resolved resp" and "ok resp" and "readJson resp = Inr wd"
    and "\<forall>i. answers (listApplications be i)" and "\<forall>i. answers (listTables be i)"
    and "\<forall>t. answers (listFields be t)" and "includeRows \<longrightarrow> (\<forall>i. answers (listRows be i maxRows))"
  shows "\<exists>res s'. readBaserowStructure ev be includeRows maxRows s = (Inr res, s')"
proof -
  let ?z = "\<lparr>totalWorkspaces = 0, totalApplications = 0, totalTables = 0, totalFields = 0\<rparr>"
  let ?s1 = "s\<lparr>counters := ?z, requests := requests s @ [(getRequest (apiUrl @ ''/api/workspaces/'') apiToken, None)]\<rparr>"
  let ?s2 = "?s1\<lparr>counters := (counters ?s1)\<lparr>totalWorkspaces := length (resultsOrEmpty wd)\<rparr>\<rparr>"
  from forOf_returns[of "workspaceStep be apiUrl apiToken includeRows maxRows" "resultsOrEmpty wd" "[]" ?s2]
    workspaceStep_returns[OF assms(5-8)]
  obtain finished s' where "forOf (resultsOrEmpty wd) (workspaceStep be apiUrl apiToken includeRows maxRows) [] ?s2 = (Inr finished, s')"
    by blast
  then show ?thesis using assms(1-4)
    by (simp add: readBaserowStructure_def readStructureBody_def io_defs updateSummary_def getSummary_def Let_def resultsOrEmpty_def)
qed

section \<open>Failures of the root fetch\<close>

text \<open>
  Claim C4. With the credentials present, a workspaces request that the transport
  rejects, or that is answered with a non-success status, ends
  \<open>readBaserowStructure\<close> with an error whose message is
  \<open>Failed to read Baserow structure:\<close> followed by the cause (the message of the
  rejection, or \<open>Failed to fetch workspaces: <status> <statusText>\<close>). No structure is
  returned, and the workspaces request is the only one issued.
\<close>

theorem root_fetch_failure_fails_walk:
  assumes "credentials ev = Some (apiUrl, apiToken)"
  shows "(listWorkspaces be = Rejected e \<longrightarrow>
            fst (readBaserowStructure ev be includeRows maxRows s) =
              Inl (Error (''Failed to read Baserow structure: '' @ message e)) \<and>
            requests (snd (readBaserowStructure ev be includeRows maxRows s)) =
              requests s @ [(getRequest (apiUrl @ ''/api/workspaces/'') apiToken, Some e)]) \<and>
         (listWorkspaces be = Resolved resp \<and> \<not> ok resp \<longrightarrow>
            fst (readBaserowStructure ev be includeRows maxRows s) =
              Inl (Error (''Failed to read Baserow structure: '' @ ''Failed to fetch workspaces: '' @
                          interpolate (int (status resp)) @ '' '' @ statusText resp)) \<and>
            requests (snd (readBaserowStructure ev be includeRows maxRows s)) =
              requests s @ [(getRequest (apiUrl @ ''/api/workspaces/'') apiToken, None)])"
  using assms
  by (simp add: readBaserowStructure_def readStructureBody_def io_defs updateSummary_def)

theorem root_fetch_failure_fails_walk_witness:
  "credentials sampleEnv = Some (''https://api.baserow.io'', ''test_token'') \<and>
   listWorkspaces offline = Rejected (Error ''fetch failed'') \<and>
   fst (readBaserowStructure sampleEnv offline False 5 idle) =
     Inl (Error ''Failed to read Baserow structure: fetch failed'') \<and>
   listWorkspaces unauthorized = respondStatus 401 ''Unauthorized'' [] \<and>
   fst (readBaserowStructure sampleEnv unauthorized False 5 idle) =
     Inl (Error ''Failed to read Baserow structure: Failed to fetch workspaces: 401 Unauthorized'')"
proof -
  let ?resp = "\<lparr>ok = False, status = 401, statusText = ''Unauthorized'', readText = Inr [],
                readJson = Inl (Error ''Unexpected token in JSON'')\<rparr> :: workspacesData response"
  have c: "credentials sampleEnv = Some (''https://api.baserow.io'', ''test_token'')"
    by (simp add: sampleEnv_def)
  have a: "listWorkspaces offline = Rejected (Error ''fetch failed'')"
    by (simp add: offline_def)
  have b: "listWorkspaces unauthorized = Resolved ?resp"
    by (simp add: unauthorized_def offline_def respondStatus_def)
  have n: "interpolate 401 = ''401''"
    by code_simp
  from root_fetch_failure_fails_walk[OF c, of offline "Error ''fetch failed''" False 5 idle] a
  have 1: "fst (readBaserowStructure sampleEnv offline False 5 idle) =
     Inl (Error ''Failed to read Baserow structure: fetch failed'')"
    by simp
  from root_fetch_failure_fails_walk[OF c, of unauthorized _ False 5 idle ?resp] b
  have 2: "fst (readBaserowStructure sampleEnv unauthorized False 5 idle) =
     Inl (Error ''Failed to read Baserow structure: Failed to fetch workspaces: 401 Unauthorized'')"
    by (simp add: n)
  show ?thesis
    using c a b 1 2 by (simp add: respondStatus_def)
qed

section \<open>Transport failures below the root\<close>

text \<open>
  Claim C5 says that a transport failure at the applications, tables, fields or rows
  fetch is absorbed and the traversal continues. It is not: the one workspace below is
  listed, the request for its applications is rejected by the transport, and the whole
  call fails.
\<close>

theorem applications_transport_failure_counterexample:
  "readBaserowStructure sampleEnv appsUnreachable False 5 idle =
     (Inl (Error ''Failed to read Baserow structure: fetch failed''),
      \<lparr>requests =
         [(getRequest ''https://api.baserow.io/api/workspaces/'' ''test_token'', None),
          (getRequest ''https://api.baserow.io/api/applications/workspace/1/'' ''test_token'',
           Some (Error ''fetch failed''))],
       warnings = [],
       counters = \<lparr>totalWorkspaces = 1, totalApplications = 0, totalTables = 0, totalFields = 0\<rparr>\<rparr>)"
  by code_simp

text \<open>
  Claim C5 as amended. Whenever the transport rejects a request that
  \<open>readBaserowStructure\<close> issues, at the root or at the applications, tables, fields
  or rows level, with an error \<open>e\<close>, the call fails with
  \<open>Failed to read Baserow structure:\<close> followed by the message of \<open>e\<close>; no structure
  is returned.
\<close>

theorem transport_failure_fails_walk:
  assumes "(q, Some e) \<in> set (drop (length (requests s))
                                  (requests (snd (readBaserowStructure ev be includeRows maxRows s))))"
  shows "fst (readBaserowStructure ev be includeRows maxRows s) =
           Inl (Error (''Failed to read Baserow structure: '' @ message e))"
proof -
  from readBaserowStructure_rejection[of ev be includeRows maxRows s] obtain new where
    n: "requests (snd (readBaserowStructure ev be includeRows maxRows s)) = requests s @ new"
    and e: "\<And>q e. (q, Some e) \<in> set new \<Longrightarrow>
              fst (readBaserowStructure ev be includeRows maxRows s) =
                Inl (Error (''Failed to read Baserow structure: '' @ message e))"
    by blast
  from assms n have "(q, Some e) \<in> set new"
    by simp
  then show ?thesis
    by (rule e)
qed

theorem transport_failure_fails_walk_witness:
  "(getRequest ''https://api.baserow.io/api/applications/workspace/1/'' ''test_token'', Some (Error ''fetch failed''))
     \<in> set (drop (length (requests idle)) (requests (snd (readBaserowStructure sampleEnv appsUnreachable True 5 idle)))) \<and>
   fst (readBaserowStructure sampleEnv appsUnreachable True 5 idle) =
     Inl (Error ''Failed to read Baserow structure: fetch failed'')"
proof -
  have m: "(getRequest ''https://api.baserow.io/api/applications/workspace/1/'' ''test_token'', Some (Error ''fetch failed''))
     \<in> set (drop (length (requests idle)) (requests (snd (readBaserowStructure sampleEnv appsUnreachable True 5 idle))))"
    by code_simp
  from transport_failure_fails_walk[OF m] m show ?thesis
    by simp
qed


section \<open>Non-success responses below the root\<close>








section \<open>Applications that are not databases\<close>

text \<open>
  Claim C8. In every result of \<open>readBaserowStructure\<close>, every application nested in a
  workspace has type \<open>database\<close>: the nested applications of a workspace are those of
  the listed ones whose type is \<open>database\<close>, in order. And \<open>summary.totalApplications\<close>
  is the number of all applications, of any type, that the successful applications
  fetches of the listed workspaces delivered.
\<close>

theorem non_database_counted_not_nested:
  assumes "readBaserowStructure ev be includeRows maxRows s = (Inr res, s')"
  shows "(\<forall>wi \<in> set (workspaces (read_structure res)). \<forall>ai \<in> set (wi_applications wi). ai_type ai = ''database'') \<and>
         (\<exists>resp wd. listWorkspaces be = Resolved resp \<and> ok resp \<and> readJson resp = Inr wd \<and>
            map (\<lambda>wi. map ai_id (wi_applications wi)) (workspaces (read_structure res)) =
              map (\<lambda>ws. map app_id (filter (\<lambda>a. app_type a = ''database'')
                                       (deliveredList (listApplications be (ws_id ws)))))
                  (resultsOrEmpty wd) \<and>
            totalApplications (summary (read_structure res)) =
              sum_list (map (\<lambda>ws. length (deliveredList (listApplications be (ws_id ws)))) (resultsOrEmpty wd)))"
proof -
  from readBaserowStructure_Inr[OF assms] obtain resp wd where
    r: "listWorkspaces be = Resolved resp" "ok resp" "readJson resp = Inr wd"
    and w: "workspaces (read_structure res) = map (expectedWorkspace be includeRows maxRows) (resultsOrEmpty wd)"
    and t: "totalApplications (summary (read_structure res)) =
              sum_list (map (\<lambda>ws. length (deliveredList (listApplications be (ws_id ws)))) (resultsOrEmpty wd))"
    by blast
  have types: "\<forall>wi \<in> set (workspaces (read_structure res)). \<forall>ai \<in> set (wi_applications wi). ai_type ai = ''database''"
    unfolding w by (auto simp: expectedWorkspace_def expectedApplication_def)
  have ids: "map (\<lambda>wi. map ai_id (wi_applications wi)) (workspaces (read_structure res)) =
              map (\<lambda>ws. map app_id (filter (\<lambda>a. app_type a = ''database'')
                                       (deliveredList (listApplications be (ws_id ws)))))
                  (resultsOrEmpty wd)"
    unfolding w by (simp add: expectedWorkspace_def expectedApplication_def comp_def)
  show ?thesis
    using types ids r t by blast
qed


theorem non_database_counted_not_nested_witness:
  "(\<exists>res s'. readBaserowStructure sampleEnv patchy False 5 idle = (Inr res, s') \<and>
      map (\<lambda>wi. map ai_id (wi_applications wi)) (workspaces (read_structure res)) = [[], [101, 103]] \<and>
      list_all (\<lambda>wi. list_all (\<lambda>ai. ai_type ai = ''database'') (wi_applications wi))
        (workspaces (read_structure res)) \<and>
      totalApplications (summary (read_structure res)) = 3) \<and>
   map app_type (deliveredList (listApplications patchy 2)) = [''database'', ''form'', ''database'']"
proof -
  let ?wd = "\<lparr>results = Some [\<lparr>ws_id = 1, ws_name = ''A''\<rparr>, \<lparr>ws_id = 2, ws_name = ''B''\<rparr>]\<rparr>"
  let ?resp = "\<lparr>ok = True, status = 200, statusText = ''OK'', readText = Inr [], readJson = Inr ?wd\<rparr>"
  have c: "credentials sampleEnv = Some (''https://api.baserow.io'', ''test_token'')"
    by (simp add: sampleEnv_def)
  have root: "listWorkspaces patchy = Resolved ?resp"
    by (simp add: patchy_def offline_def respondOk_def)
  have a1: "\<forall>i. answers (listApplications patchy i)"
    by (simp add: patchy_def offline_def respondOk_def respondStatus_def answers_def)
  have a2: "\<forall>i. answers (listTables patchy i)"
    by (simp add: patchy_def offline_def respondOk_def respondStatus_def answers_def)
  have a3: "\<forall>t. answers (listFields patchy t)"
    by (simp add: patchy_def offline_def respondOk_def respondStatus_def answers_def)
  have a4: "False \<longrightarrow> (\<forall>i. answers (listRows patchy i 5))"
    by simp
  from readBaserowStructure_returns[where s = idle and wd = ?wd, OF c root _ _ a1 a2 a3 a4]
  obtain res s' where h: "readBaserowStructure sampleEnv patchy False 5 idle = (Inr res, s')"
    by auto
  have ids: "map (\<lambda>ws. map app_id (filter (\<lambda>a. app_type a = ''database'')
                                       (deliveredList (listApplications patchy (ws_id ws)))))
                  (resultsOrEmpty ?wd) = [[], [101, 103]]"
    by code_simp
  have total: "sum_list (map (\<lambda>ws. length (deliveredList (listApplications patchy (ws_id ws)))) (resultsOrEmpty ?wd)) = 3"
    by code_simp
  have types: "map app_type (deliveredList (listApplications patchy 2)) = [''database'', ''form'', ''database'']"
    by code_simp
  from non_database_counted_not_nested[OF h] root
  have "list_all (\<lambda>wi. list_all (\<lambda>ai. ai_type ai = ''database'') (wi_applications wi))
          (workspaces (read_structure res)) \<and>
        map (\<lambda>wi. map ai_id (wi_applications wi)) (workspaces (read_structure res)) = [[], [101, 103]] \<and>
        totalApplications (summary (read_structure res)) = 3"
    by (auto simp: list_all_iff ids total)
  with h have "\<exists>res s'. readBaserowStructure sampleEnv patchy False 5 idle = (Inr res, s') \<and>
      map (\<lambda>wi. map ai_id (wi_applications wi)) (workspaces (read_structure res)) = [[], [101, 103]] \<and>
      list_all (\<lambda>wi. list_all (\<lambda>ai. ai_type ai = ''database'') (wi_applications wi))
        (workspaces (read_structure res)) \<and>
      totalApplications (summary (read_structure res)) = 3"
    by (intro exI[of _ res] exI[of _ s']) simp
  then show ?thesis
    using types by (intro conjI)
qed

end
